theory Spec2Isabelle
  imports Complex_Main "HOL-Library.Word"
begin

section \<open>Laser detector: data model\<close>

text \<open>
  Embedding of \<^verbatim>\<open>src/hooks/useLaserDetector.ts\<close>.

  JavaScript numbers are IEEE 754 doubles. They are modelled by the \<^typ>\<open>real\<close> values
  they denote (finite ones: no \<^verbatim>\<open>NaN\<close> or infinite setting), and in \<^verbatim>\<open>detectLaser\<close>
  every operation whose exact result need not be a double is followed by the rounding
  \<open>fl\<close> defined below. Sums, differences and doublings of channel bytes are integers
  far below \<open>2^53\<close> and exact, as is the division of such an integer by 4. The pixel
  buffer is a \<^verbatim>\<open>Uint8ClampedArray\<close>, a list of bytes. Frame sizes and loop counters of
  the raster scan are natural numbers, neighbourhood offsets are integers.

  Field names \<^verbatim>\<open>x\<close>, \<^verbatim>\<open>y\<close>, \<^verbatim>\<open>r\<close>, \<^verbatim>\<open>g\<close>, \<^verbatim>\<open>b\<close> of the source carry a prefix here,
  since a record field is a constant and would capture every variable of that name.
\<close>

datatype ColorMode = ModeRed | ModeGreen | ModeAuto

datatype LaserColor = Red | Green

record DetectorSettings =
  sensitivity :: real
  colorMode :: ColorMode
  smoothing :: real
  flickerFilter :: bool
  mirror :: bool
  rotation :: real

record DetectionResult =
  found :: bool
  det_x :: real
  det_y :: real
  intensity :: int
  detectedColor :: "LaserColor option"

record ImageData =
  data :: "8 word list"
  width :: nat
  height :: nat

record Candidate =
  cand_x :: nat
  cand_y :: nat
  cand_r :: real
  cand_g :: real
  cand_b :: real
  score :: real

definition DEFAULT_SETTINGS :: DetectorSettings where
  "DEFAULT_SETTINGS =
     \<lparr>sensitivity = 50, colorMode = ModeAuto, smoothing = 3,
      flickerFilter = True, mirror = False, rotation = 0\<rparr>"

section \<open>Double-precision rounding\<close>

text \<open>
  Rounding of a real number to the nearest double, ties to the even significand
  (the default rounding of IEEE 754, used by every arithmetic operation of the
  language and by the reading of a decimal literal). For \<open>a > 0\<close>, \<open>ulp a\<close> is the power
  of two \<open>u\<close> with \<open>2^52 \<le> a / u < 2^53\<close>, found from \<open>u = 1\<close> by doubling and halving;
  the doubles of that magnitude are the multiples of \<open>u\<close>. The exponent range is taken
  unbounded: overflow and subnormal numbers, which need magnitudes beyond \<open>10^308\<close> or
  below \<open>10^-307\<close>, are not modelled.
\<close>

function scaleUp :: "real \<Rightarrow> real \<Rightarrow> real" where
  "scaleUp a u = (if 0 < u \<and> 2 ^ 53 \<le> a / u then scaleUp a (2 * u) else u)"
  by pat_completeness auto
termination
proof (relation "measure (\<lambda>(a, u). nat \<lceil>a / u\<rceil>)")
  show "wf (measure (\<lambda>(a, u). nat \<lceil>a / u\<rceil>))" by simp
next
  fix a u :: real
  assume h: "0 < u \<and> 2 ^ 53 \<le> a / u"
  define t where "t = a / u"
  have "(2::real) < 2 ^ 53" by simp
  with h have big: "2 < t" unfolding t_def by linarith
  then have c: "2 \<le> \<lceil>t\<rceil>" by (simp add: le_ceiling_iff)
  have "t \<le> of_int \<lceil>t\<rceil>" by (rule le_of_int_ceiling)
  moreover have "(2::real) \<le> of_int \<lceil>t\<rceil>" using c by linarith
  ultimately have "t / 2 \<le> of_int \<lceil>t\<rceil> - 1" by linarith
  then have "t / 2 \<le> of_int (\<lceil>t\<rceil> - 1)" by simp
  then have "\<lceil>t / 2\<rceil> \<le> \<lceil>t\<rceil> - 1" by (simp only: ceiling_le_iff)
  with c have less: "nat \<lceil>t / 2\<rceil> < nat \<lceil>t\<rceil>" by linarith
  have "a / (2 * u) = t / 2" by (simp add: t_def)
  with less have "nat \<lceil>a / (2 * u)\<rceil> < nat \<lceil>a / u\<rceil>" by (simp only: t_def)
  then show "((a, 2 * u), (a, u)) \<in> measure (\<lambda>(a, u). nat \<lceil>a / u\<rceil>)"
    by (simp only: in_measure prod.case)
qed

function scaleDown :: "real \<Rightarrow> real \<Rightarrow> real" where
  "scaleDown a u = (if 0 < a \<and> 0 < u \<and> a / u < 2 ^ 52 then scaleDown a (u / 2) else u)"
  by pat_completeness auto
termination
proof (relation "measure (\<lambda>(a, u). nat \<lceil>2 ^ 53 * u / a\<rceil>)")
  show "wf (measure (\<lambda>(a, u). nat \<lceil>2 ^ 53 * u / a\<rceil>))" by simp
next
  fix a u :: real
  assume h: "0 < a \<and> 0 < u \<and> a / u < 2 ^ 52"
  define t where "t = 2 ^ 53 * u / a"
  from h have "a < 2 ^ 52 * u" using pos_divide_less_eq [of u a "2 ^ 52"] by blast
  then have "2 * a < 2 ^ 53 * u" by simp
  then have big: "2 < t"
    unfolding t_def using h pos_less_divide_eq [of a 2 "2 ^ 53 * u"] by simp
  then have c: "2 \<le> \<lceil>t\<rceil>" by (simp add: le_ceiling_iff)
  have "t \<le> of_int \<lceil>t\<rceil>" by (rule le_of_int_ceiling)
  moreover have "(2::real) \<le> of_int \<lceil>t\<rceil>" using c by linarith
  ultimately have "t / 2 \<le> of_int \<lceil>t\<rceil> - 1" by linarith
  then have "t / 2 \<le> of_int (\<lceil>t\<rceil> - 1)" by simp
  then have "\<lceil>t / 2\<rceil> \<le> \<lceil>t\<rceil> - 1" by (simp only: ceiling_le_iff)
  with c have less: "nat \<lceil>t / 2\<rceil> < nat \<lceil>t\<rceil>" by linarith
  have "2 ^ 53 * (u / 2) / a = t / 2" by (simp add: t_def)
  with less have "nat \<lceil>2 ^ 53 * (u / 2) / a\<rceil> < nat \<lceil>2 ^ 53 * u / a\<rceil>"
    by (simp only: t_def)
  then show "((a, u / 2), (a, u)) \<in> measure (\<lambda>(a, u). nat \<lceil>2 ^ 53 * u / a\<rceil>)"
    by (simp only: in_measure prod.case)
qed

definition ulp :: "real \<Rightarrow> real" where
  "ulp a = scaleDown a (scaleUp a 1)"

definition roundEven :: "real \<Rightarrow> int" where
  "roundEven t =
     (let f = \<lfloor>t\<rfloor>; d = t - of_int f
      in if d < 1 / 2 then f else if 1 / 2 < d then f + 1 else if even f then f else f + 1)"

definition fl :: "real \<Rightarrow> real" where
  "fl x = ulp \<bar>x\<bar> * of_int (roundEven (x / ulp \<bar>x\<bar>))"

section \<open>detectLaser\<close>

text \<open>
  \<^verbatim>\<open>data[i]\<close>, \<^verbatim>\<open>data[i + 1]\<close>, \<^verbatim>\<open>data[i + 2]\<close>. A read past the end of the typed array
  is \<^verbatim>\<open>undefined\<close>; a sum with it is \<^verbatim>\<open>NaN\<close>, \<^verbatim>\<open>Math.max\<close> of it is \<^verbatim>\<open>NaN\<close>, and every
  comparison with \<^verbatim>\<open>NaN\<close> is false. \<open>None\<close> stands for a pixel one of whose three
  channel reads is out of range: each use below spells out what the all-false
  comparisons make the source do.
\<close>

definition rgbAt :: "ImageData \<Rightarrow> nat \<Rightarrow> (real \<times> real \<times> real) option" where
  "rgbAt img i =
     (if i + 2 < length (data img)
      then Some (real (unat (data img ! i)),
                 real (unat (data img ! (i + 1))),
                 real (unat (data img ! (i + 2))))
      else None)"

definition sensitivityFactor :: "DetectorSettings \<Rightarrow> real" where
  "sensitivityFactor settings = fl (sensitivity settings / 100)"

definition saturationThreshold :: "DetectorSettings \<Rightarrow> real" where
  "saturationThreshold settings = fl (250 - fl (sensitivityFactor settings * 50))"

definition bloomThreshold :: "DetectorSettings \<Rightarrow> real" where
  "bloomThreshold settings = fl (200 - fl (sensitivityFactor settings * 80))"

text \<open>
  The green branch of the loop body: the pair \<open>(isLaserCandidate, score)\<close> after it.
  The local \<^verbatim>\<open>color\<close> of the source is written and never read, and is left out.
\<close>

definition greenCheck :: "DetectorSettings \<Rightarrow> real \<Rightarrow> real \<Rightarrow> real \<Rightarrow> bool \<times> real" where
  "greenCheck settings r g b =
     (let brightness = fl ((r + g + b) / 3) in
      if colorMode settings = ModeGreen \<or> colorMode settings = ModeAuto then
        (let greenDominance = g - max r b;
             isSaturatedGreen = (g \<ge> saturationThreshold settings \<and>
                (greenDominance > 20 \<or> (g > 250 \<and> r > 200 \<and> b > 150)));
             isGreenBloom = (g > bloomThreshold settings \<and> g > fl (r * fl (9 / 10)) \<and>
                g > fl (b * fl (11 / 10)))
         in if isSaturatedGreen \<or> isGreenBloom
            then (True, g + (if greenDominance > 0 then greenDominance * 2 else 0)
                          + (if brightness > 250 then 100 else 0))
            else (False, 0))
      else (False, 0))"

text \<open>The red branch, started from the pair the green branch left.\<close>

definition redCheck ::
  "DetectorSettings \<Rightarrow> real \<Rightarrow> real \<Rightarrow> real \<Rightarrow> bool \<times> real \<Rightarrow> bool \<times> real" where
  "redCheck settings r g b acc =
     (let brightness = fl ((r + g + b) / 3) in
      if colorMode settings = ModeRed \<or> colorMode settings = ModeAuto then
        (let redDominance = r - max g b;
             isSaturatedRed = (r \<ge> saturationThreshold settings \<and>
                (redDominance > 20 \<or> (r > 250 \<and> g > 150 \<and> b > 100)));
             isRedBloom = (r > bloomThreshold settings \<and> r > fl (g * fl (6 / 5)) \<and>
                r > fl (b * fl (13 / 10)))
         in if isSaturatedRed \<or> isRedBloom
            then (let redScore = r + (if redDominance > 0 then redDominance * 2 else 0)
                                   + (if brightness > 250 then 100 else 0)
                  in if redScore > snd acc then (True, redScore) else acc)
            else acc)
      else acc)"

text \<open>
  One iteration of the scan at \<open>(x, y)\<close>: the candidate pushed, if any. With an
  out-of-range read the brightness is \<^verbatim>\<open>NaN\<close>, so the \<^verbatim>\<open>continue\<close> is not taken, both
  colour tests are false and nothing is pushed.
\<close>

definition scanPixel :: "ImageData \<Rightarrow> DetectorSettings \<Rightarrow> nat \<Rightarrow> nat \<Rightarrow> Candidate option" where
  "scanPixel img settings x y =
     (case rgbAt img ((y * width img + x) * 4) of
        None \<Rightarrow> None
      | Some (r, g, b) \<Rightarrow>
          (let brightness = fl ((r + g + b) / 3) in
           if brightness < bloomThreshold settings then None
           else
             (let res = redCheck settings r g b (greenCheck settings r g b) in
              if fst res \<and> snd res > 0
              then Some \<lparr>cand_x = x, cand_y = y, cand_r = r, cand_g = g, cand_b = b,
                         score = snd res\<rparr>
              else None)))"

text \<open>\<^verbatim>\<open>for (let v = 0; v < n; v += step)\<close> with \<^verbatim>\<open>step = 2\<close>: the values visited.\<close>

definition stride2 :: "nat \<Rightarrow> nat list" where
  "stride2 n = filter (\<lambda>v. v mod 2 = 0) [0..<n]"

text \<open>The candidate list after the two nested scan loops, in raster order.\<close>

definition scanCandidates :: "ImageData \<Rightarrow> DetectorSettings \<Rightarrow> Candidate list" where
  "scanCandidates img settings =
     concat (map (\<lambda>y. List.map_filter (\<lambda>x. scanPixel img settings x y) (stride2 (width img)))
                 (stride2 (height img)))"

text \<open>
  \<^verbatim>\<open>candidates.sort((a, b) => b.score - a.score)\<close>: descending by score; the sort of
  the language is stable, as insertion by key is.
\<close>

definition sortCandidates :: "Candidate list \<Rightarrow> Candidate list" where
  "sortCandidates cs = sort_key (\<lambda>c. - score c) cs"

text \<open>\<^verbatim>\<open>for (let d = -15; d <= 15; d += 3)\<close> and \<^verbatim>\<open>for (let d = -10; d <= 10; d++)\<close>.\<close>

definition bloomOffsets :: "int list" where
  "bloomOffsets = filter (\<lambda>d. (d + 15) mod 3 = 0) [-15..15]"

definition refineOffsets :: "int list" where
  "refineOffsets = [-10..10]"

definition inBounds :: "ImageData \<Rightarrow> int \<Rightarrow> int \<Rightarrow> bool" where
  "inBounds img nx ny =
     (\<not> (nx < 0 \<or> nx \<ge> int (width img) \<or> ny < 0 \<or> ny \<ge> int (height img)))"

text \<open>Brightness of the pixel at \<open>(nx, ny)\<close>; \<open>None\<close> is \<^verbatim>\<open>NaN\<close>.\<close>

definition brightnessAt :: "ImageData \<Rightarrow> int \<Rightarrow> int \<Rightarrow> real option" where
  "brightnessAt img nx ny =
     map_option (\<lambda>(r, g, b). fl ((r + g + b) / 3))
       (rgbAt img (nat ((ny * int (width img) + nx) * 4)))"

text \<open>Body of the bloom loops on the pair \<open>(bloomPixels, totalChecked)\<close>.\<close>

definition bloomStep ::
  "ImageData \<Rightarrow> DetectorSettings \<Rightarrow> Candidate \<Rightarrow> nat \<times> nat \<Rightarrow> int \<times> int \<Rightarrow> nat \<times> nat" where
  "bloomStep img settings topC acc d =
     (let dy = fst d; dx = snd d;
          nx = int (cand_x topC) + dx;
          ny = int (cand_y topC) + dy
      in if \<not> inBounds img nx ny then acc
         else (case brightnessAt img nx ny of
                 None \<Rightarrow> (fst acc, snd acc + 1)
               | Some brightness \<Rightarrow>
                   if brightness > fl (bloomThreshold settings * fl (7 / 10))
                   then (fst acc + 1, snd acc + 1)
                   else (fst acc, snd acc + 1)))"

definition bloomCounts :: "ImageData \<Rightarrow> DetectorSettings \<Rightarrow> Candidate \<Rightarrow> nat \<times> nat" where
  "bloomCounts img settings topC =
     foldl (bloomStep img settings topC) (0, 0)
       (concat (map (\<lambda>dy. map (\<lambda>dx. (dy, dx)) bloomOffsets) bloomOffsets))"

definition hasBloom :: "ImageData \<Rightarrow> DetectorSettings \<Rightarrow> Candidate \<Rightarrow> bool" where
  "hasBloom img settings topC =
     (let bloomPixels = fst (bloomCounts img settings topC);
          totalChecked = snd (bloomCounts img settings topC);
          bloomRatio = (if totalChecked > 0 then fl (real bloomPixels / real totalChecked) else 0)
      in bloomRatio > fl (fl (3 / 20) - fl (sensitivityFactor settings * fl (1 / 10))))"

definition minScore :: "DetectorSettings \<Rightarrow> real" where
  "minScore settings = fl (200 - fl (sensitivityFactor settings * 100))"

text \<open>Body of the refinement loops on the triple \<open>(sumX, sumY, sumWeight)\<close>.\<close>

definition refineStep ::
  "ImageData \<Rightarrow> DetectorSettings \<Rightarrow> Candidate \<Rightarrow> real \<times> real \<times> real \<Rightarrow> int \<times> int
     \<Rightarrow> real \<times> real \<times> real" where
  "refineStep img settings topC acc d =
     (let dy = fst d; dx = snd d;
          nx = int (cand_x topC) + dx;
          ny = int (cand_y topC) + dy
      in if \<not> inBounds img nx ny then acc
         else (case brightnessAt img nx ny of
                 None \<Rightarrow> acc
               | Some brightness \<Rightarrow>
                   if brightness > saturationThreshold settings
                   then (case acc of (sumX, sumY, sumWeight) \<Rightarrow>
                           (fl (sumX + fl (real_of_int nx * brightness)),
                            fl (sumY + fl (real_of_int ny * brightness)),
                            fl (sumWeight + brightness)))
                   else acc))"

definition refineSums :: "ImageData \<Rightarrow> DetectorSettings \<Rightarrow> Candidate \<Rightarrow> real \<times> real \<times> real" where
  "refineSums img settings topC =
     foldl (refineStep img settings topC) (0, 0, 0)
       (concat (map (\<lambda>dy. map (\<lambda>dx. (dy, dx)) refineOffsets) refineOffsets))"

text \<open>
  The position after refinement: the quotient is a double, and \<^verbatim>\<open>Math.round\<close> of a
  double is the exact \<open>floor (x + 1/2)\<close>, as \<^const>\<open>round\<close>.
\<close>

definition refinedPosition :: "ImageData \<Rightarrow> DetectorSettings \<Rightarrow> Candidate \<Rightarrow> real \<times> real" where
  "refinedPosition img settings topC =
     (case refineSums img settings topC of (sumX, sumY, sumWeight) \<Rightarrow>
        if sumWeight > 0
        then (real_of_int (round (fl (sumX / sumWeight))),
              real_of_int (round (fl (sumY / sumWeight))))
        else (real (cand_x topC), real (cand_y topC)))"

definition notFound :: DetectionResult where
  "notFound = \<lparr>found = False, det_x = 0, det_y = 0, intensity = 0, detectedColor = None\<rparr>"

definition detectLaser :: "ImageData \<Rightarrow> DetectorSettings \<Rightarrow> DetectionResult" where
  "detectLaser img settings =
     (case sortCandidates (scanCandidates img settings) of
        [] \<Rightarrow> notFound
      | topCandidate # _ \<Rightarrow>
          if score topCandidate > minScore settings \<and> hasBloom img settings topCandidate
          then
            \<lparr>found = True,
             det_x = fst (refinedPosition img settings topCandidate),
             det_y = snd (refinedPosition img settings topCandidate),
             intensity = min 100 (round (score topCandidate / 4)),
             detectedColor = Some (if cand_g topCandidate > cand_r topCandidate
                                   then Green else Red)\<rparr>
          else
            \<lparr>found = False, det_x = 0, det_y = 0,
             intensity = min 100 (round ((0::real) / 4)),
             detectedColor = None\<rparr>)"

section \<open>Position smoothing and the frame loop\<close>

text \<open>
  \<^verbatim>\<open>smoothPosition(x, y, smoothing)\<close> on the history held in \<^verbatim>\<open>positionHistoryRef\<close>:
  the history after the call and the position returned. \<^verbatim>\<open>push\<close> appends,
  \<^verbatim>\<open>shift\<close> drops the first entry; both \<^verbatim>\<open>reduce\<close> calls add from the left. The
  averages here and in the calibration below are taken in exact arithmetic: no
  comparison and no rounding to an integer consumes them.
\<close>

definition smoothPosition ::
  "(real \<times> real) list \<Rightarrow> real \<Rightarrow> real \<Rightarrow> real \<Rightarrow> (real \<times> real) list \<times> (real \<times> real)" where
  "smoothPosition history x y smoothingArg =
     (let pushed = history @ [(x, y)];
          h = (if real (length pushed) > smoothingArg + 1 then tl pushed else pushed)
      in if length h = 0 then (h, (x, y))
         else (h, (foldl (\<lambda>sum p. sum + fst p) 0 h / real (length h),
                   foldl (\<lambda>sum p. sum + snd p) 0 h / real (length h))))"

text \<open>
  A number that may be \<^verbatim>\<open>NaN\<close> (\<open>None\<close>): the calibration averages divide by the
  buffer length and read the buffer without a bounds check.
\<close>

type_synonym jsnum = "real option"

definition jsAdd :: "jsnum \<Rightarrow> jsnum \<Rightarrow> jsnum" where
  "jsAdd a b = (case a of None \<Rightarrow> None | Some u \<Rightarrow> map_option (\<lambda>v. u + v) b)"

record CalibrationData =
  avgBrightness :: jsnum
  threshold :: jsnum

text \<open>
  The references of the hook that the frame loop and the calibration touch. The frame
  rate bookkeeping of \<^verbatim>\<open>processFrame\<close> reads and writes neither of them, nor the
  detection, and is left out, as are the early returns taken while no video frame is
  available.
\<close>

record PipelineState =
  positionHistory :: "(real \<times> real) list"
  calibrationData :: "CalibrationData option"

definition initialState :: PipelineState where
  "initialState = \<lparr>positionHistory = [], calibrationData = None\<rparr>"

definition processFrame ::
  "PipelineState \<Rightarrow> ImageData \<Rightarrow> DetectorSettings \<Rightarrow> PipelineState \<times> DetectionResult" where
  "processFrame st imageData settings =
     (let detection = detectLaser imageData settings in
      if found detection \<and> smoothing settings > 0 then
        (case smoothPosition (positionHistory st) (det_x detection) (det_y detection)
                (smoothing settings) of
           (h, smoothed) \<Rightarrow>
             (st\<lparr>positionHistory := h\<rparr>,
              detection\<lparr>det_x := fst smoothed, det_y := snd smoothed\<rparr>))
      else if \<not> found detection then (st\<lparr>positionHistory := []\<rparr>, detection)
      else (st, detection))"

section \<open>Calibration\<close>

text \<open>
  The brightness loop of \<^verbatim>\<open>collectFrame\<close>, \<^verbatim>\<open>for (i = 0; i < data.length; i += 4)\<close>, on
  the rest of the buffer from \<open>i\<close> on. A buffer that ends after one or two bytes of a
  pixel makes the sum \<^verbatim>\<open>NaN\<close>; one that ends after three is read in full.
\<close>

fun sumBrightness :: "real \<Rightarrow> 8 word list \<Rightarrow> jsnum" where
  "sumBrightness totalBrightness (r # g # b # a # rest) =
     sumBrightness (totalBrightness + (real (unat r) + real (unat g) + real (unat b)) / 3) rest"
| "sumBrightness totalBrightness [r, g, b] =
     Some (totalBrightness + (real (unat r) + real (unat g) + real (unat b)) / 3)"
| "sumBrightness totalBrightness [] = Some totalBrightness"
| "sumBrightness totalBrightness _ = None"

text \<open>\<^verbatim>\<open>totalBrightness / (data.length / 4)\<close>; on an empty buffer this is \<^verbatim>\<open>0 / 0\<close>.\<close>

definition frameBrightness :: "ImageData \<Rightarrow> jsnum" where
  "frameBrightness imageData =
     (case sumBrightness 0 (data imageData) of
        None \<Rightarrow> None
      | Some totalBrightness \<Rightarrow>
          if length (data imageData) = 0 then None
          else Some (totalBrightness / (real (length (data imageData)) / 4)))"

text \<open>
  What \<^verbatim>\<open>startCalibration\<close> closes over: the samples, the start time in milliseconds and
  the sensitivity of the settings it was created with.
\<close>

record CalibrationSession =
  frames :: "jsnum list"
  startTime :: int
  sessionSensitivity :: real

definition startCalibration :: "PipelineState \<Rightarrow> DetectorSettings \<Rightarrow> int \<Rightarrow> PipelineState \<times> CalibrationSession" where
  "startCalibration st settings now =
     (st\<lparr>calibrationData := None\<rparr>,
      \<lparr>frames = [], startTime = now, sessionSensitivity = sensitivity settings\<rparr>)"

text \<open>
  One call of \<^verbatim>\<open>collectFrame\<close> on the frame read from the canvas, with \<open>now\<close> the value
  of \<^verbatim>\<open>Date.now()\<close> at the test: the session after it and the calibration data stored,
  if the window has expired. The early returns taken while the canvas, the video or the
  drawing context is missing leave everything unchanged and are left out.
\<close>

definition collectFrame ::
  "CalibrationSession \<Rightarrow> ImageData \<Rightarrow> int \<Rightarrow> CalibrationSession \<times> CalibrationData option" where
  "collectFrame session imageData now =
     (let fs = frames session @ [frameBrightness imageData] in
      if now - startTime session < 2000 then (session\<lparr>frames := fs\<rparr>, None)
      else
        (let avg = map_option (\<lambda>t. t / real (length fs)) (foldl jsAdd (Some 0) fs)
         in (session\<lparr>frames := fs\<rparr>,
             Some \<lparr>avgBrightness = avg,
                   threshold = map_option (\<lambda>a. a + 50 + (100 - sessionSensitivity session)) avg\<rparr>)))"

text \<open>
  The chain of \<^verbatim>\<open>requestAnimationFrame(collectFrame)\<close> callbacks over the frames and
  clock readings that arrive: it ends at the first call that stores calibration data.
\<close>

fun runCalibration :: "CalibrationSession \<Rightarrow> (ImageData \<times> int) list \<Rightarrow> CalibrationData option" where
  "runCalibration session [] = None"
| "runCalibration session ((imageData, now) # rest) =
     (case collectFrame session imageData now of
        (session', Some c) \<Rightarrow> Some c
      | (session', None) \<Rightarrow> runCalibration session' rest)"

text \<open>
  A whole calibration on the pipeline state: \<^verbatim>\<open>startCalibration\<close> clears
  \<^verbatim>\<open>calibrationDataRef\<close>, and the reference stays \<^verbatim>\<open>null\<close> until a call of
  \<^verbatim>\<open>collectFrame\<close> stores the completed data.
\<close>

definition calibrate ::
  "PipelineState \<Rightarrow> DetectorSettings \<Rightarrow> int \<Rightarrow> (ImageData \<times> int) list \<Rightarrow> PipelineState" where
  "calibrate st settings now inputs =
     (case startCalibration st settings now of
        (st', session) \<Rightarrow> st'\<lparr>calibrationData := runCalibration session inputs\<rparr>)"

section \<open>Reference notions and sample inputs\<close>

text \<open>
  A frame of \<open>width * height\<close> whole pixels whose red, green and blue bytes all equal
  \<open>v\<close> (the alpha byte is free).
\<close>

definition uniformFrame :: "ImageData \<Rightarrow> 8 word \<Rightarrow> bool" where
  "uniformFrame img v =
     (length (data img) = 4 * (width img * height img) \<and>
      list_all (\<lambda>p. data img ! (4 * p) = v \<and> data img ! (4 * p + 1) = v \<and>
                   data img ! (4 * p + 2) = v)
        [0..<width img * height img])"

text \<open>A 2 x 1 frame: a saturated greenish pixel next to a white one.\<close>

definition greenSpot :: ImageData where
  "greenSpot = \<lparr>data = [230, 255, 230, 255, 255, 255, 255, 255], width = 2, height = 1\<rparr>"

text \<open>A 1 x 1 frame whose only pixel is dimmer than the default bloom threshold.\<close>

definition dimFrame :: ImageData where
  "dimFrame = \<lparr>data = [100, 180, 100, 255], width = 1, height = 1\<rparr>"

text \<open>
  A 32 x 1 black frame with one saturated greenish pixel at \<open>x = 16\<close>: of the eleven
  bloom samples around it only the pixel itself is bright.
\<close>

definition loneSpot :: ImageData where
  "loneSpot =
     \<lparr>data = replicate 64 0 @ [230, 255, 230, 255] @ replicate 60 0, width = 32, height = 1\<rparr>"

text \<open>
  A 3 x 1 frame with two candidates at the scanned positions 0 and 2, the second of
  higher score; a 3 x 1 frame whose only candidate, at position 2, is not saturated;
  and an 8 x 1 frame of the colour (252, 226, 238), whose four scanned positions are
  candidates of equal score.
\<close>

definition twoSpots :: ImageData where
  "twoSpots =
     \<lparr>data = [230, 255, 230, 255, 0, 0, 0, 255, 200, 255, 200, 255], width = 3, height = 1\<rparr>"

definition sideSpot :: ImageData where
  "sideSpot =
     \<lparr>data = [0, 0, 0, 255, 0, 0, 0, 255, 200, 255, 200, 255], width = 3, height = 1\<rparr>"

definition flatRed :: ImageData where
  "flatRed =
     \<lparr>data = [252, 226, 238, 255, 252, 226, 238, 255, 252, 226, 238, 255, 252, 226, 238, 255,
              252, 226, 238, 255, 252, 226, 238, 255, 252, 226, 238, 255, 252, 226, 238, 255],
      width = 8, height = 1\<rparr>"

text \<open>A 2 x 2 frame of uniform gray 128.\<close>

definition grayFrame :: ImageData where
  "grayFrame =
     \<lparr>data = [128, 128, 128, 255, 128, 128, 128, 255, 128, 128, 128, 255, 128, 128, 128, 255],
      width = 2, height = 2\<rparr>"

text \<open>
  A malformed frame in the words of the specification: width 0, height 0, or a pixel
  buffer too short for \<open>width * height * 4\<close> bytes.
\<close>

definition invalidFrame :: "ImageData \<Rightarrow> bool" where
  "invalidFrame img =
     (width img = 0 \<or> height img = 0 \<or> length (data img) < width img * height img * 4)"

text \<open>A zero-sized frame, and a frame that declares 3 x 1 pixels and holds one.\<close>

definition emptyFrame :: ImageData where
  "emptyFrame = \<lparr>data = [], width = 0, height = 0\<rparr>"

definition shortFrame :: ImageData where
  "shortFrame = \<lparr>data = [200, 255, 200, 255], width = 3, height = 1\<rparr>"

text \<open>
  The base threshold in the words of the specification: \<open>calibration.derivedThreshold\<close>
  when a calibration state is present, the constant 200 otherwise.
\<close>

definition spec_baseThreshold :: "CalibrationData option \<Rightarrow> jsnum" where
  "spec_baseThreshold calibration =
     (case calibration of None \<Rightarrow> Some 200 | Some c \<Rightarrow> threshold c)"

text \<open>Clamping of the two ranged settings in the words of the specification.\<close>

definition clampSettings :: "DetectorSettings \<Rightarrow> DetectorSettings" where
  "clampSettings s =
     s\<lparr>sensitivity := max 0 (min 100 (sensitivity s)),
       smoothing := max 0 (min 10 (smoothing s))\<rparr>"

text \<open>
  A 1 x 1 black frame; the pipeline state after a calibration at the default settings
  that read it twice, 16 ms and 2000 ms after its start; and a 1 x 1 frame with a
  greenish pixel of brightness about 166.
\<close>

definition darkFrame :: ImageData where
  "darkFrame = \<lparr>data = [0, 0, 0, 255], width = 1, height = 1\<rparr>"

definition calibratedState :: PipelineState where
  "calibratedState =
     calibrate initialState DEFAULT_SETTINGS 1000 [(darkFrame, 1016), (darkFrame, 3000)]"

definition paleGreen :: ImageData where
  "paleGreen = \<lparr>data = [150, 199, 150, 255], width = 1, height = 1\<rparr>"

text \<open>
  A 1 x 1 frame with a faint green pixel of brightness about 67, a 1 x 1 white frame,
  and a pipeline state whose history holds eleven positions, as eleven detections
  under smoothing 10 leave it.
\<close>

definition faintGreen :: ImageData where
  "faintGreen = \<lparr>data = [50, 100, 50, 255], width = 1, height = 1\<rparr>"

definition whitePixel :: ImageData where
  "whitePixel = \<lparr>data = [255, 255, 255, 255], width = 1, height = 1\<rparr>"

definition fullHistory :: PipelineState where
  "fullHistory =
     \<lparr>positionHistory = [(12, 0), (1, 0), (1, 0), (1, 0), (1, 0), (1, 0), (1, 0), (1, 0),
                          (1, 0), (1, 0), (1, 0)],
      calibrationData = None\<rparr>"

text \<open>The arithmetic mean of a list of positions, coordinate by coordinate.\<close>

definition meanPosition :: "(real \<times> real) list \<Rightarrow> real \<times> real" where
  "meanPosition h =
     (sum_list (map fst h) / real (length h), sum_list (map snd h) / real (length h))"

text \<open>
  A frame as the canvas delivers it: at least one pixel, four bytes for each. Its pixel
  \<open>p\<close> has brightness \<open>(R + G + B) / 3\<close>, and the frame average is the mean of these
  over all \<open>width * height\<close> pixels.
\<close>

definition wellFormed :: "ImageData \<Rightarrow> bool" where
  "wellFormed img =
     (0 < width img * height img \<and> length (data img) = 4 * (width img * height img))"

definition pixelBrightness :: "8 word list \<Rightarrow> nat \<Rightarrow> real" where
  "pixelBrightness d p =
     (real (unat (d ! (4 * p))) + real (unat (d ! (4 * p + 1))) + real (unat (d ! (4 * p + 2)))) / 3"

definition meanBrightness :: "ImageData \<Rightarrow> real" where
  "meanBrightness img =
     sum_list (map (pixelBrightness (data img)) [0..<width img * height img])
       / real (width img * height img)"

text \<open>The arithmetic mean of a list of numbers.\<close>

definition mean :: "real list \<Rightarrow> real" where
  "mean xs = sum_list xs / real (length xs)"

text \<open>
  The refinement in the words of the specification. The square neighbourhood of radius
  10 is the list of offsets \<open>(dy, dx)\<close> with both components from \<open>-10\<close> to \<open>10\<close>; a
  pixel of it counts when it lies inside the frame and its brightness exceeds the
  saturation threshold. \<open>weightedCentroid\<close> is the brightness-weighted mean position of
  the pixels that count, rounded to the nearest integer; \<open>floatCentroid\<close> is the same
  centroid evaluated in double arithmetic, every product, running sum and quotient
  rounded, the pixels taken in the order of the list.
\<close>

definition squareOffsets :: "(int \<times> int) list" where
  "squareOffsets = concat (map (\<lambda>dy. map (\<lambda>dx. (dy, dx)) [-10..10]) [-10..10])"

definition saturatedAt ::
  "ImageData \<Rightarrow> DetectorSettings \<Rightarrow> Candidate \<Rightarrow> int \<times> int \<Rightarrow> (int \<times> int \<times> real) list" where
  "saturatedAt img s c d =
     (let nx = int (cand_x c) + snd d; ny = int (cand_y c) + fst d in
      if 0 \<le> nx \<and> nx < int (width img) \<and> 0 \<le> ny \<and> ny < int (height img)
      then (case brightnessAt img nx ny of
              None \<Rightarrow> []
            | Some br \<Rightarrow> if br > saturationThreshold s then [(nx, ny, br)] else [])
      else [])"

definition saturatedNeighbours ::
  "ImageData \<Rightarrow> DetectorSettings \<Rightarrow> Candidate \<Rightarrow> (int \<times> int \<times> real) list" where
  "saturatedNeighbours img s c = concat (map (saturatedAt img s c) squareOffsets)"

definition weightedCentroid :: "(int \<times> int \<times> real) list \<Rightarrow> real \<times> real" where
  "weightedCentroid ps =
     (let sumX = sum_list (map (\<lambda>(nx, ny, br). real_of_int nx * br) ps);
          sumY = sum_list (map (\<lambda>(nx, ny, br). real_of_int ny * br) ps);
          sumWeight = sum_list (map (\<lambda>(nx, ny, br). br) ps)
      in (real_of_int (round (sumX / sumWeight)), real_of_int (round (sumY / sumWeight))))"

definition floatCentroid :: "(int \<times> int \<times> real) list \<Rightarrow> real \<times> real" where
  "floatCentroid ps =
     (let sumX = foldl (\<lambda>a (nx, ny, br). fl (a + fl (real_of_int nx * br))) 0 ps;
          sumY = foldl (\<lambda>a (nx, ny, br). fl (a + fl (real_of_int ny * br))) 0 ps;
          sumWeight = foldl (\<lambda>a (nx, ny, br). fl (a + br)) 0 ps
      in (real_of_int (round (fl (sumX / sumWeight))),
          real_of_int (round (fl (sumY / sumWeight)))))"

text \<open>
  The top candidate in the words of the specification: of highest score, and the first
  in scan order among the candidates of that score.
\<close>

definition isTopCandidate :: "Candidate list \<Rightarrow> Candidate \<Rightarrow> bool" where
  "isTopCandidate cs c =
     (list_all (\<lambda>d. score d \<le> score c) cs \<and> List.find (\<lambda>d. score d = score c) cs = Some c)"

section \<open>Facts about the rounding\<close>

declare scaleUp.simps [simp del] scaleDown.simps [simp del]

lemmas fl_eval = fl_def ulp_def scaleUp.simps scaleDown.simps roundEven_def Let_def

lemma scaleUp_pos: "0 < u \<Longrightarrow> 0 < scaleUp a u"
proof (induction a u rule: scaleUp.induct)
  case (1 a u)
  show ?case
  proof (cases "0 < u \<and> 2 ^ 53 \<le> a / u")
    case True
    then have "scaleUp a u = scaleUp a (2 * u)"
      by (subst scaleUp.simps) (simp only: simp_thms if_True)
    moreover have "0 < scaleUp a (2 * u)" using "1.IH" [OF True] "1.prems" by simp
    ultimately show ?thesis by simp
  next
    case False
    then have "scaleUp a u = u"
      by (subst scaleUp.simps) (simp only: if_False)
    with "1.prems" show ?thesis by simp
  qed
qed

lemma scaleDown_bounds:
  "0 < a \<Longrightarrow> 0 < u \<Longrightarrow> 0 < scaleDown a u \<and> 2 ^ 52 \<le> a / scaleDown a u"
proof (induction a u rule: scaleDown.induct)
  case (1 a u)
  show ?case
  proof (cases "0 < a \<and> 0 < u \<and> a / u < 2 ^ 52")
    case True
    then have "scaleDown a u = scaleDown a (u / 2)"
      by (subst scaleDown.simps) (simp only: simp_thms if_True)
    moreover have "0 < scaleDown a (u / 2) \<and> 2 ^ 52 \<le> a / scaleDown a (u / 2)"
      using "1.IH" [OF True] "1.prems" by simp
    ultimately show ?thesis by simp
  next
    case False
    then have "scaleDown a u = u"
      by (subst scaleDown.simps) (simp only: if_False)
    moreover from False "1.prems" have "2 ^ 52 \<le> a / u" by simp
    ultimately show ?thesis using "1.prems" by simp
  qed
qed

lemma ulp_bounds: "0 < a \<Longrightarrow> 0 < ulp a \<and> 2 ^ 52 \<le> a / ulp a"
  unfolding ulp_def by (rule scaleDown_bounds) (simp_all add: scaleUp_pos)

lemma floor_le_roundEven: "\<lfloor>t\<rfloor> \<le> roundEven t"
  by (simp add: roundEven_def Let_def)

lemma fl_zero: "fl 0 = 0"
  by (simp add: fl_def roundEven_def)

lemma fl_pos:
  assumes "0 < x"
  shows "0 < fl x"
proof -
  from assms have u: "0 < ulp x" and big: "2 ^ 52 \<le> x / ulp x"
    using ulp_bounds by blast+
  have "(1::real) \<le> 2 ^ 52" by simp
  with big have "1 \<le> x / ulp x" by linarith
  then have "1 \<le> \<lfloor>x / ulp x\<rfloor>" by (simp add: le_floor_iff)
  with floor_le_roundEven [of "x / ulp x"] have "0 < roundEven (x / ulp x)" by linarith
  then have "0 < real_of_int (roundEven (x / ulp x))" by simp
  with u have "0 < ulp x * real_of_int (roundEven (x / ulp x))" by (rule mult_pos_pos)
  with assms show ?thesis by (simp add: fl_def)
qed

lemma fl_nonneg: "0 \<le> x \<Longrightarrow> 0 \<le> fl x"
  using fl_pos [of x] fl_zero by (cases "x = 0") (auto simp: less_eq_real_def)

lemma fl_consts:
  "fl (9 / 10) = 8106479329266893 / 9007199254740992"
  "fl (11 / 10) = 2476979795053773 / 2251799813685248"
  "fl (6 / 5) = 5404319552844595 / 4503599627370496"
  "fl (13 / 10) = 5854679515581645 / 4503599627370496"
  "fl (7 / 10) = 3152519739159347 / 4503599627370496"
  "fl (3 / 20) = 5404319552844595 / 36028797018963968"
  "fl (1 / 10) = 3602879701896397 / 36028797018963968"
  by (simp_all add: fl_eval)

section \<open>Basic facts about the scan\<close>

lemma bloomOffsets_eq: "bloomOffsets = [-15, -12, -9, -6, -3, 0, 3, 6, 9, 12, 15]"
  unfolding bloomOffsets_def by code_simp

lemma refineOffsets_eq:
  "refineOffsets = [-10, -9, -8, -7, -6, -5, -4, -3, -2, -1, 0, 1, 2, 3, 4, 5, 6, 7, 8, 9, 10]"
  unfolding refineOffsets_def by code_simp

lemma stride2_small:
  "stride2 0 = []" "stride2 (Suc 0) = [0]" "stride2 2 = [0]" "stride2 3 = [0, 2]"
  "stride2 8 = [0, 2, 4, 6]"
  unfolding stride2_def by code_simp+

lemma set_sortCandidates: "set (sortCandidates cs) = set cs"
  by (simp add: sortCandidates_def)

lemma scanCandidates_origin:
  assumes "c \<in> set (scanCandidates img s)"
  shows "\<exists>x y. x < width img \<and> y < height img \<and> scanPixel img s x y = Some c"
proof -
  from assms obtain y x where "y < height img" "x < width img" "scanPixel img s x y = Some c"
    by (auto simp: scanCandidates_def stride2_def List.map_filter_def)
  then show ?thesis by blast
qed

lemma scanPixel_score_pos: "scanPixel img s x y = Some c \<Longrightarrow> score c > 0"
  by (auto simp: scanPixel_def Let_def split: option.splits if_splits)

lemma scanCandidates_score_pos: "c \<in> set (scanCandidates img s) \<Longrightarrow> score c > 0"
  using scanCandidates_origin scanPixel_score_pos by blast

lemma top_in_scan:
  assumes "sortCandidates (scanCandidates img s) = topC # rest"
  shows "topC \<in> set (scanCandidates img s)"
proof -
  have "topC \<in> set (sortCandidates (scanCandidates img s))" using assms by simp
  then show ?thesis by (simp add: set_sortCandidates)
qed

lemma top_score_pos:
  assumes "sortCandidates (scanCandidates img s) = topC # rest"
  shows "score topC > 0"
  using top_in_scan [OF assms] by (rule scanCandidates_score_pos)

lemma find_filter_head:
  "List.find P xs = (case filter P xs of [] \<Rightarrow> None | x # _ \<Rightarrow> Some x)"
  by (induction xs) simp_all

text \<open>
  The head of the sorted list is a candidate of highest score, and by the stability of
  the sort the first such candidate in scan order.
\<close>

lemma sorted_top:
  assumes "sortCandidates cs = topC # rest"
  shows "isTopCandidate cs topC"
proof -
  let ?f = "\<lambda>c. - score c"
  have "sorted (map ?f (sort_key ?f cs))" by (rule sorted_sort_key)
  with assms have "\<forall>c \<in> set rest. ?f topC \<le> ?f c"
    by (simp add: sortCandidates_def)
  moreover have "set cs = set (topC # rest)"
    using assms set_sortCandidates [of cs] by simp
  ultimately have le: "\<forall>c \<in> set cs. score c \<le> score topC" by auto
  have "filter (\<lambda>c. ?f c = ?f topC) (sort_key ?f cs) = filter (\<lambda>c. ?f c = ?f topC) cs"
    by (rule sort_key_stable)
  with assms have "filter (\<lambda>c. score c = score topC) cs =
      topC # filter (\<lambda>c. score c = score topC) rest"
    by (simp add: sortCandidates_def)
  then have "List.find (\<lambda>c. score c = score topC) cs = Some topC"
    by (simp add: find_filter_head)
  with le show ?thesis by (simp add: isTopCandidate_def list_all_iff)
qed

lemma scanCandidates_empty:
  assumes "\<And>x y. x < width img \<Longrightarrow> y < height img \<Longrightarrow> scanPixel img s x y = None"
  shows "scanCandidates img s = []"
proof (rule ccontr)
  assume "scanCandidates img s \<noteq> []"
  then obtain c where "c \<in> set (scanCandidates img s)"
    by (cases "scanCandidates img s") auto
  then obtain x y where "x < width img" "y < height img" "scanPixel img s x y = Some c"
    using scanCandidates_origin by blast
  then show False using assms by simp
qed

lemma detectLaser_no_candidates: "scanCandidates img s = [] \<Longrightarrow> detectLaser img s = notFound"
  by (simp add: detectLaser_def sortCandidates_def)

text \<open>The smoothing setting does not enter the detection.\<close>

lemma detectLaser_smoothing: "detectLaser img (s\<lparr>smoothing := w\<rparr>) = detectLaser img s"
proof -
  have t: "sensitivityFactor (s\<lparr>smoothing := w\<rparr>) = sensitivityFactor s"
    by (simp add: sensitivityFactor_def)
  have th: "saturationThreshold (s\<lparr>smoothing := w\<rparr>) = saturationThreshold s"
    "bloomThreshold (s\<lparr>smoothing := w\<rparr>) = bloomThreshold s"
    "minScore (s\<lparr>smoothing := w\<rparr>) = minScore s"
    by (simp_all add: saturationThreshold_def bloomThreshold_def minScore_def t)
  have gc: "greenCheck (s\<lparr>smoothing := w\<rparr>) = greenCheck s"
    by (intro ext) (simp add: greenCheck_def th)
  have rc: "redCheck (s\<lparr>smoothing := w\<rparr>) = redCheck s"
    by (intro ext) (simp add: redCheck_def th)
  have sp: "scanPixel img (s\<lparr>smoothing := w\<rparr>) = scanPixel img s"
    by (intro ext) (simp add: scanPixel_def th gc rc split: option.splits)
  have sc: "scanCandidates img (s\<lparr>smoothing := w\<rparr>) = scanCandidates img s"
    by (simp add: scanCandidates_def sp)
  have bs: "bloomStep img (s\<lparr>smoothing := w\<rparr>) = bloomStep img s"
    by (intro ext) (simp add: bloomStep_def th Let_def cong: option.case_cong)
  have hb: "hasBloom img (s\<lparr>smoothing := w\<rparr>) = hasBloom img s"
    by (intro ext) (simp add: hasBloom_def bloomCounts_def bs t)
  have rs: "refineStep img (s\<lparr>smoothing := w\<rparr>) = refineStep img s"
    by (intro ext) (simp add: refineStep_def th Let_def cong: option.case_cong)
  have rp: "refinedPosition img (s\<lparr>smoothing := w\<rparr>) = refinedPosition img s"
    by (intro ext) (simp add: refinedPosition_def refineSums_def rs)
  show ?thesis
    by (simp add: detectLaser_def sc hb rp th cong: list.case_cong if_cong)
qed

section \<open>Evaluation on the sample inputs\<close>

lemma default_fields:
  "sensitivity DEFAULT_SETTINGS = 50" "colorMode DEFAULT_SETTINGS = ModeAuto"
  "smoothing DEFAULT_SETTINGS = 3"
  by (simp_all add: DEFAULT_SETTINGS_def)

lemma default_factor: "sensitivityFactor DEFAULT_SETTINGS = 1 / 2"
  by (simp add: sensitivityFactor_def default_fields fl_eval)

lemma default_thresholds:
  "minScore DEFAULT_SETTINGS = 150"
  "saturationThreshold DEFAULT_SETTINGS = 225" "bloomThreshold DEFAULT_SETTINGS = 160"
  by (simp_all add: minScore_def saturationThreshold_def bloomThreshold_def default_factor
      fl_eval)

lemma default_bloom:
  "fl (bloomThreshold DEFAULT_SETTINGS * fl (7 / 10)) = 112"
  "fl (fl (3 / 20) - fl (sensitivityFactor DEFAULT_SETTINGS * fl (1 / 10))) =
     7205759403792793 / 72057594037927936"
  by (simp_all add: default_thresholds default_factor fl_consts fl_eval)


text \<open>The doubles met on the sample inputs, as exact fractions.\<close>

lemma fl_values:
  "fl 1 = 1" "fl 255 = 255"
  "fl (715 / 3) = 8385608681171627 / 35184372088832"
  "fl (655 / 3) = 7681921239394987 / 35184372088832"
  "fl (716 / 3) = 8397336805201237 / 35184372088832"
  "fl (499 / 3) = 5852333890775723 / 35184372088832"
  "fl (380 / 3) = 8913374262504107 / 70368744177664"
  "fl (200 / 3) = 4691249611844267 / 70368744177664"
  "fl (1 / 11) = 3275345183542179 / 36028797018963968"
  by (simp_all add: fl_eval)

lemmas check_defs = redCheck_def greenCheck_def fl_consts fl_eval

lemmas bloom_defs =
  bloomCounts_def bloomOffsets_eq bloomStep_def inBounds_def brightnessAt_def rgbAt_def Let_def
  fl_values fl_zero

lemmas refine_defs =
  refineSums_def refineOffsets_eq refineStep_def inBounds_def brightnessAt_def rgbAt_def Let_def
  fl_values fl_zero

lemma round_quarters:
  "round (305 / 4 :: real) = 76" "round (365 / 4 :: real) = 91" "round (280 / 4 :: real) = 70"
  "round (355 / 4 :: real) = 89" "round (200 / 4 :: real) = 50"
  by (simp_all add: round_def floor_eq_iff)

lemma checks_230_255_230:
  "redCheck DEFAULT_SETTINGS 230 255 230 (greenCheck DEFAULT_SETTINGS 230 255 230) = (True, 305)"
  by (simp add: check_defs default_thresholds default_fields)

lemma checks_200_255_200:
  "redCheck DEFAULT_SETTINGS 200 255 200 (greenCheck DEFAULT_SETTINGS 200 255 200) = (True, 365)"
  by (simp add: check_defs default_thresholds default_fields)

lemma checks_252_226_238:
  "redCheck DEFAULT_SETTINGS 252 226 238 (greenCheck DEFAULT_SETTINGS 252 226 238) = (True, 280)"
  by (simp add: check_defs default_thresholds default_fields)

lemmas default_checks = checks_230_255_230 checks_200_255_200 checks_252_226_238

lemmas pixel_defs = scanPixel_def rgbAt_def Let_def fl_values fl_zero

lemma scanPixel_greenSpot:
  "scanPixel greenSpot DEFAULT_SETTINGS 0 0 =
     Some \<lparr>cand_x = 0, cand_y = 0, cand_r = 230, cand_g = 255, cand_b = 230, score = 305\<rparr>"
  by (simp add: pixel_defs greenSpot_def default_thresholds default_checks)

lemma scan_greenSpot:
  "scanCandidates greenSpot DEFAULT_SETTINGS =
     [\<lparr>cand_x = 0, cand_y = 0, cand_r = 230, cand_g = 255, cand_b = 230, score = 305\<rparr>]"
proof -
  have "width greenSpot = 2" "height greenSpot = Suc 0" by (simp_all add: greenSpot_def)
  then show ?thesis
    by (simp add: scanCandidates_def stride2_small List.map_filter_def scanPixel_greenSpot)
qed

lemma bloom_greenSpot:
  "bloomCounts greenSpot DEFAULT_SETTINGS
     \<lparr>cand_x = 0, cand_y = 0, cand_r = 230, cand_g = 255, cand_b = 230, score = 305\<rparr> = (1, 1)"
  by (simp add: greenSpot_def default_bloom bloom_defs)

lemma hasBloom_greenSpot:
  "hasBloom greenSpot DEFAULT_SETTINGS
     \<lparr>cand_x = 0, cand_y = 0, cand_r = 230, cand_g = 255, cand_b = 230, score = 305\<rparr>"
  by (simp add: hasBloom_def bloom_greenSpot default_bloom fl_values)

lemma refine_greenSpot:
  "refineSums greenSpot DEFAULT_SETTINGS
     \<lparr>cand_x = 0, cand_y = 0, cand_r = 230, cand_g = 255, cand_b = 230, score = 305\<rparr> =
   (255, 0, 4339405890955947 / 8796093022208)"
  apply (simp add: greenSpot_def default_thresholds refine_defs)
  apply (simp add: fl_eval)
  done

lemma refined_greenSpot:
  "refinedPosition greenSpot DEFAULT_SETTINGS
     \<lparr>cand_x = 0, cand_y = 0, cand_r = 230, cand_g = 255, cand_b = 230, score = 305\<rparr> = (1, 0)"
  apply (simp add: refinedPosition_def refine_greenSpot fl_zero)
  apply (simp add: fl_eval round_def floor_eq_iff)
  done

lemma detect_greenSpot:
  "detectLaser greenSpot DEFAULT_SETTINGS =
     \<lparr>found = True, det_x = 1, det_y = 0, intensity = 76, detectedColor = Some Green\<rparr>"
  by (simp add: detectLaser_def sortCandidates_def scan_greenSpot hasBloom_greenSpot
      refined_greenSpot default_thresholds round_quarters)

lemma scan_dimFrame: "scanCandidates dimFrame DEFAULT_SETTINGS = []"
proof -
  have "scanPixel dimFrame DEFAULT_SETTINGS 0 0 = None"
    by (simp add: pixel_defs dimFrame_def default_thresholds)
  then show ?thesis
    by (simp add: scanCandidates_def stride2_small List.map_filter_def dimFrame_def)
qed

lemma detect_dimFrame: "detectLaser dimFrame DEFAULT_SETTINGS = notFound"
  using scan_dimFrame by (rule detectLaser_no_candidates)

lemma rgbAt_loneSpot:
  "x < 32 \<Longrightarrow> rgbAt loneSpot (x * 4) = Some (if x = 16 then (230, 255, 230) else (0, 0, 0))"
  by (auto simp: rgbAt_def loneSpot_def nth_append nth_Cons')

lemma scanPixel_loneSpot:
  "x < 32 \<Longrightarrow> scanPixel loneSpot DEFAULT_SETTINGS x 0 =
     (if x = 16
      then Some \<lparr>cand_x = 16, cand_y = 0, cand_r = 230, cand_g = 255, cand_b = 230, score = 305\<rparr>
      else None)"
  by (simp add: scanPixel_def rgbAt_loneSpot fl_values fl_zero default_thresholds default_checks)

lemma stride2_32: "stride2 32 = [0, 2, 4, 6, 8, 10, 12, 14, 16, 18, 20, 22, 24, 26, 28, 30]"
  unfolding stride2_def by code_simp

lemma scan_loneSpot:
  "scanCandidates loneSpot DEFAULT_SETTINGS =
     [\<lparr>cand_x = 16, cand_y = 0, cand_r = 230, cand_g = 255, cand_b = 230, score = 305\<rparr>]"
proof -
  have "width loneSpot = 32" "height loneSpot = Suc 0" by (simp_all add: loneSpot_def)
  then show ?thesis
    by (simp add: scanCandidates_def stride2_small stride2_32 List.map_filter_def
        scanPixel_loneSpot)
qed

lemma brightnessAt_loneSpot:
  assumes "0 \<le> nx" "nx < 32"
  shows "brightnessAt loneSpot nx 0 =
           Some (if nx = 16 then 8385608681171627 / 35184372088832 else 0)"
proof -
  have "nat nx < 32" using assms by simp
  moreover have "(nat nx = 16) = (nx = 16)" using assms by linarith
  moreover have "nat (nx * 4) = nat nx * 4" using assms by simp
  ultimately show ?thesis
    using rgbAt_loneSpot [of "nat nx"] by (simp add: brightnessAt_def fl_values fl_zero)
qed

lemma bloom_loneSpot:
  "bloomCounts loneSpot DEFAULT_SETTINGS
     \<lparr>cand_x = 16, cand_y = 0, cand_r = 230, cand_g = 255, cand_b = 230, score = 305\<rparr> = (1, 11)"
proof -
  have "width loneSpot = 32" "height loneSpot = Suc 0" by (simp_all add: loneSpot_def)
  then show ?thesis
    by (simp add: bloomCounts_def bloomOffsets_eq bloomStep_def inBounds_def
        brightnessAt_loneSpot default_bloom)
qed

lemma hasBloom_loneSpot:
  "\<not> hasBloom loneSpot DEFAULT_SETTINGS
     \<lparr>cand_x = 16, cand_y = 0, cand_r = 230, cand_g = 255, cand_b = 230, score = 305\<rparr>"
  by (simp add: hasBloom_def bloom_loneSpot default_bloom fl_values)

lemma scanPixel_twoSpots:
  "scanPixel twoSpots DEFAULT_SETTINGS 0 0 =
     Some \<lparr>cand_x = 0, cand_y = 0, cand_r = 230, cand_g = 255, cand_b = 230, score = 305\<rparr>"
  "scanPixel twoSpots DEFAULT_SETTINGS 2 0 =
     Some \<lparr>cand_x = 2, cand_y = 0, cand_r = 200, cand_g = 255, cand_b = 200, score = 365\<rparr>"
  by (simp_all add: pixel_defs twoSpots_def default_thresholds default_checks)

lemma scan_twoSpots:
  "scanCandidates twoSpots DEFAULT_SETTINGS =
     [\<lparr>cand_x = 0, cand_y = 0, cand_r = 230, cand_g = 255, cand_b = 230, score = 305\<rparr>,
      \<lparr>cand_x = 2, cand_y = 0, cand_r = 200, cand_g = 255, cand_b = 200, score = 365\<rparr>]"
proof -
  have "width twoSpots = 3" "height twoSpots = Suc 0" by (simp_all add: twoSpots_def)
  then show ?thesis
    by (simp add: scanCandidates_def stride2_small List.map_filter_def scanPixel_twoSpots)
qed

lemma sort_twoSpots:
  "sortCandidates (scanCandidates twoSpots DEFAULT_SETTINGS) =
     [\<lparr>cand_x = 2, cand_y = 0, cand_r = 200, cand_g = 255, cand_b = 200, score = 365\<rparr>,
      \<lparr>cand_x = 0, cand_y = 0, cand_r = 230, cand_g = 255, cand_b = 230, score = 305\<rparr>]"
  by (simp add: sortCandidates_def scan_twoSpots)

lemma bloom_twoSpots:
  "bloomCounts twoSpots DEFAULT_SETTINGS
     \<lparr>cand_x = 2, cand_y = 0, cand_r = 200, cand_g = 255, cand_b = 200, score = 365\<rparr> = (1, 1)"
  by (simp add: twoSpots_def default_bloom bloom_defs)

lemma hasBloom_twoSpots:
  "hasBloom twoSpots DEFAULT_SETTINGS
     \<lparr>cand_x = 2, cand_y = 0, cand_r = 200, cand_g = 255, cand_b = 200, score = 365\<rparr>"
  by (simp add: hasBloom_def bloom_twoSpots default_bloom fl_values)

lemma refine_twoSpots:
  "refineSums twoSpots DEFAULT_SETTINGS
     \<lparr>cand_x = 2, cand_y = 0, cand_r = 200, cand_g = 255, cand_b = 200, score = 365\<rparr> =
   (0, 0, 8385608681171627 / 35184372088832)"
  apply (simp add: twoSpots_def default_thresholds refine_defs)
  apply (simp add: fl_eval)
  done

lemma refined_twoSpots:
  "refinedPosition twoSpots DEFAULT_SETTINGS
     \<lparr>cand_x = 2, cand_y = 0, cand_r = 200, cand_g = 255, cand_b = 200, score = 365\<rparr> = (0, 0)"
  by (simp add: refinedPosition_def refine_twoSpots fl_zero)

lemma detect_twoSpots:
  "detectLaser twoSpots DEFAULT_SETTINGS =
     \<lparr>found = True, det_x = 0, det_y = 0, intensity = 91, detectedColor = Some Green\<rparr>"
  by (simp add: detectLaser_def sort_twoSpots hasBloom_twoSpots refined_twoSpots
      default_thresholds round_quarters)

section \<open>The result of a frame without a beam\<close>

text \<open>
  Claim C10. Whenever \<open>detectLaser\<close> reports \<open>found = false\<close>, because no pixel
  qualified or because the top candidate failed the bloom or the score check, the
  result is exactly \<open>x = 0\<close>, \<open>y = 0\<close>, \<open>intensity = 0\<close>, \<open>detectedColor = null\<close>.
\<close>

theorem notFound_result:
  "found (detectLaser img s) = False \<Longrightarrow> detectLaser img s = notFound"
  by (cases "sortCandidates (scanCandidates img s)")
     (simp_all add: detectLaser_def notFound_def split: if_splits)

theorem notFound_result_witness:
  "found (detectLaser dimFrame DEFAULT_SETTINGS) = False \<and>
   scanCandidates dimFrame DEFAULT_SETTINGS = [] \<and>
   detectLaser dimFrame DEFAULT_SETTINGS =
     \<lparr>found = False, det_x = 0, det_y = 0, intensity = 0, detectedColor = None\<rparr> \<and>
   found (detectLaser loneSpot DEFAULT_SETTINGS) = False \<and>
   scanCandidates loneSpot DEFAULT_SETTINGS =
     [\<lparr>cand_x = 16, cand_y = 0, cand_r = 230, cand_g = 255, cand_b = 230, score = 305\<rparr>] \<and>
   \<not> hasBloom loneSpot DEFAULT_SETTINGS
     \<lparr>cand_x = 16, cand_y = 0, cand_r = 230, cand_g = 255, cand_b = 230, score = 305\<rparr> \<and>
   detectLaser loneSpot DEFAULT_SETTINGS =
     \<lparr>found = False, det_x = 0, det_y = 0, intensity = 0, detectedColor = None\<rparr>"
proof -
  have h1: "found (detectLaser dimFrame DEFAULT_SETTINGS) = False"
    by (simp add: detect_dimFrame notFound_def)
  have h2: "found (detectLaser loneSpot DEFAULT_SETTINGS) = False"
    by (simp add: detectLaser_def sortCandidates_def scan_loneSpot hasBloom_loneSpot)
  show ?thesis
    using h1 h2 notFound_result [OF h1] notFound_result [OF h2]
    by (simp add: notFound_def scan_dimFrame scan_loneSpot hasBloom_loneSpot)
qed

section \<open>Intensity\<close>

text \<open>
  Claim C6. When \<open>detectLaser\<close> reports \<open>found = true\<close>, the intensity is
  \<open>min(100, round(score / 4))\<close> for the score of the top candidate, and in every case
  the intensity is an integer from 0 to 100. The top candidate is the one the sort
  puts first: no candidate of the scan has a higher score, and it is the first in scan
  order among those of its score.
\<close>

theorem intensity_formula:
  "(found (detectLaser img s) \<longrightarrow>
      (\<exists>topC rest. sortCandidates (scanCandidates img s) = topC # rest \<and>
         isTopCandidate (scanCandidates img s) topC \<and>
         intensity (detectLaser img s) = min 100 (round (score topC / 4)))) \<and>
   0 \<le> intensity (detectLaser img s) \<and> intensity (detectLaser img s) \<le> 100"
proof (cases "sortCandidates (scanCandidates img s)")
  case Nil
  then show ?thesis by (simp add: detectLaser_def notFound_def)
next
  case (Cons topC rest)
  have "0 < score topC" using top_score_pos [OF Cons] .
  then have "0 \<le> round (score topC / 4)" by (simp add: round_def)
  moreover have "isTopCandidate (scanCandidates img s) topC" using Cons by (rule sorted_top)
  ultimately show ?thesis using Cons by (auto simp: detectLaser_def)
qed

lemma top_twoSpots:
  "isTopCandidate
     [\<lparr>cand_x = 0, cand_y = 0, cand_r = 230, cand_g = 255, cand_b = 230, score = 305\<rparr>,
      \<lparr>cand_x = 2, cand_y = 0, cand_r = 200, cand_g = 255, cand_b = 200, score = 365\<rparr>] c =
   (c = \<lparr>cand_x = 2, cand_y = 0, cand_r = 200, cand_g = 255, cand_b = 200, score = 365\<rparr>)"
  by (auto simp: isTopCandidate_def)

theorem intensity_formula_witness:
  "found (detectLaser twoSpots DEFAULT_SETTINGS) \<and>
   scanCandidates twoSpots DEFAULT_SETTINGS =
     [\<lparr>cand_x = 0, cand_y = 0, cand_r = 230, cand_g = 255, cand_b = 230, score = 305\<rparr>,
      \<lparr>cand_x = 2, cand_y = 0, cand_r = 200, cand_g = 255, cand_b = 200, score = 365\<rparr>] \<and>
   sortCandidates (scanCandidates twoSpots DEFAULT_SETTINGS) =
     [\<lparr>cand_x = 2, cand_y = 0, cand_r = 200, cand_g = 255, cand_b = 200, score = 365\<rparr>,
      \<lparr>cand_x = 0, cand_y = 0, cand_r = 230, cand_g = 255, cand_b = 230, score = 305\<rparr>] \<and>
   isTopCandidate (scanCandidates twoSpots DEFAULT_SETTINGS)
     \<lparr>cand_x = 2, cand_y = 0, cand_r = 200, cand_g = 255, cand_b = 200, score = 365\<rparr> \<and>
   \<not> isTopCandidate (scanCandidates twoSpots DEFAULT_SETTINGS)
     \<lparr>cand_x = 0, cand_y = 0, cand_r = 230, cand_g = 255, cand_b = 230, score = 305\<rparr> \<and>
   intensity (detectLaser twoSpots DEFAULT_SETTINGS) = 91 \<and>
   min 100 (round (365 / 4 :: real)) = 91 \<and> min 100 (round (305 / 4 :: real)) = 76"
  using intensity_formula [of twoSpots DEFAULT_SETTINGS]
  by (simp add: detect_twoSpots scan_twoSpots sortCandidates_def top_twoSpots round_quarters)

section \<open>Uniform gray frames\<close>

lemma gray_checks: "redCheck s 128 128 128 (greenCheck s 128 128 128) = (False, 0)"
  by (simp add: check_defs)

lemma uniformFrame_rgbAt:
  assumes "uniformFrame img v" "x < width img" "y < height img"
  shows "rgbAt img ((y * width img + x) * 4) =
           Some (real (unat v), real (unat v), real (unat v))"
proof -
  define p where "p = y * width img + x"
  have "p < y * width img + width img" using assms(2) by (simp add: p_def)
  also have "\<dots> = Suc y * width img" by simp
  also have "\<dots> \<le> height img * width img"
    using assms(3) by (intro mult_le_mono1) simp
  finally have p: "p < width img * height img" by (simp add: mult.commute)
  from assms(1) have len: "length (data img) = 4 * (width img * height img)"
    and all: "\<forall>q<width img * height img.
        data img ! (4 * q) = v \<and> data img ! (4 * q + 1) = v \<and> data img ! (4 * q + 2) = v"
    by (auto simp: uniformFrame_def list_all_iff)
  from all p have vals:
    "data img ! (4 * p) = v" "data img ! (4 * p + 1) = v" "data img ! (4 * p + 2) = v"
    by blast+
  have "p * 4 + 2 < length (data img)" using p len by simp
  then have "rgbAt img (p * 4) = Some (real (unat v), real (unat v), real (unat v))"
    using vals by (simp add: rgbAt_def mult.commute)
  then show ?thesis by (simp only: p_def)
qed

text \<open>
  Claim C4. A frame all of whose pixels have \<open>R = G = B = 128\<close> yields
  \<open>found = false\<close>, for every settings value (every sensitivity, in particular those
  from 0 to 100, and every colour mode).
\<close>

theorem gray_not_found:
  assumes "uniformFrame img 128"
  shows "found (detectLaser img s) = False"
proof -
  have "scanPixel img s x y = None" if "x < width img" "y < height img" for x y
    unfolding scanPixel_def
    using uniformFrame_rgbAt [OF assms that] gray_checks [of s]
    by (simp add: Let_def)
  then have "scanCandidates img s = []" by (rule scanCandidates_empty)
  then show ?thesis by (simp add: detectLaser_no_candidates notFound_def)
qed

lemma uniform_grayFrame: "uniformFrame grayFrame 128"
  unfolding uniformFrame_def grayFrame_def by code_simp

theorem gray_not_found_witness:
  "uniformFrame grayFrame 128 \<and> found (detectLaser grayFrame DEFAULT_SETTINGS) = False"
  using uniform_grayFrame gray_not_found [OF uniform_grayFrame, of DEFAULT_SETTINGS] by simp

section \<open>Zero-sized frames and short buffers\<close>

lemma scanPixel_shortFrame:
  "scanPixel shortFrame DEFAULT_SETTINGS 0 0 =
     Some \<lparr>cand_x = 0, cand_y = 0, cand_r = 200, cand_g = 255, cand_b = 200, score = 365\<rparr>"
  "scanPixel shortFrame DEFAULT_SETTINGS 2 0 = None"
proof -
  have "rgbAt shortFrame ((0 * width shortFrame + 0) * 4) = Some (200, 255, 200)"
    by (simp add: rgbAt_def shortFrame_def)
  then show "scanPixel shortFrame DEFAULT_SETTINGS 0 0 =
     Some \<lparr>cand_x = 0, cand_y = 0, cand_r = 200, cand_g = 255, cand_b = 200, score = 365\<rparr>"
    unfolding scanPixel_def by (simp add: default_checks default_thresholds fl_values)
  have "rgbAt shortFrame ((0 * width shortFrame + 2) * 4) = None"
    by (simp add: rgbAt_def shortFrame_def)
  then show "scanPixel shortFrame DEFAULT_SETTINGS 2 0 = None"
    unfolding scanPixel_def by simp
qed

lemma scan_shortFrame:
  "scanCandidates shortFrame DEFAULT_SETTINGS =
     [\<lparr>cand_x = 0, cand_y = 0, cand_r = 200, cand_g = 255, cand_b = 200, score = 365\<rparr>]"
proof -
  have "width shortFrame = 3" "height shortFrame = Suc 0" by (simp_all add: shortFrame_def)
  then show ?thesis
    by (simp add: scanCandidates_def stride2_small List.map_filter_def scanPixel_shortFrame)
qed

lemma bloom_shortFrame:
  "bloomCounts shortFrame DEFAULT_SETTINGS
     \<lparr>cand_x = 0, cand_y = 0, cand_r = 200, cand_g = 255, cand_b = 200, score = 365\<rparr> = (1, 1)"
  by (simp add: shortFrame_def default_bloom bloom_defs)

lemma refine_shortFrame:
  "refineSums shortFrame DEFAULT_SETTINGS
     \<lparr>cand_x = 0, cand_y = 0, cand_r = 200, cand_g = 255, cand_b = 200, score = 365\<rparr> =
   (0, 0, 0)"
  by (simp add: shortFrame_def default_thresholds refine_defs)

lemma detect_shortFrame:
  "detectLaser shortFrame DEFAULT_SETTINGS =
     \<lparr>found = True, det_x = 0, det_y = 0, intensity = 91, detectedColor = Some Green\<rparr>"
proof -
  have b: "hasBloom shortFrame DEFAULT_SETTINGS
     \<lparr>cand_x = 0, cand_y = 0, cand_r = 200, cand_g = 255, cand_b = 200, score = 365\<rparr>"
    by (simp add: hasBloom_def bloom_shortFrame default_bloom fl_values)
  have p: "refinedPosition shortFrame DEFAULT_SETTINGS
     \<lparr>cand_x = 0, cand_y = 0, cand_r = 200, cand_g = 255, cand_b = 200, score = 365\<rparr> = (0, 0)"
    by (simp add: refinedPosition_def refine_shortFrame)
  show ?thesis
    by (simp add: detectLaser_def sortCandidates_def scan_shortFrame b p default_thresholds
        round_quarters)
qed

text \<open>
  Claim C2 says that a malformed or zero-sized frame makes detection fail with an
  \<open>InvalidFrame\<close> error instead of scanning. \<open>detectLaser\<close> has no failure exit: on
  the zero-sized frame it returns the ordinary \<open>found = false\<close> result, and on the
  frame whose buffer is too short it scans the pixel that is there and reports a beam.
\<close>

theorem invalid_frame_counterexample:
  "invalidFrame emptyFrame \<and>
   detectLaser emptyFrame DEFAULT_SETTINGS =
     \<lparr>found = False, det_x = 0, det_y = 0, intensity = 0, detectedColor = None\<rparr> \<and>
   invalidFrame shortFrame \<and>
   detectLaser shortFrame DEFAULT_SETTINGS =
     \<lparr>found = True, det_x = 0, det_y = 0, intensity = 91, detectedColor = Some Green\<rparr>"
proof -
  have "scanCandidates emptyFrame DEFAULT_SETTINGS = []"
    by (simp add: scanCandidates_def stride2_small emptyFrame_def)
  then have "detectLaser emptyFrame DEFAULT_SETTINGS = notFound"
    by (rule detectLaser_no_candidates)
  moreover have "invalidFrame emptyFrame" "invalidFrame shortFrame"
    by (simp_all add: invalidFrame_def emptyFrame_def shortFrame_def)
  ultimately show ?thesis by (simp add: detect_shortFrame notFound_def)
qed

text \<open>
  Claim C2 as amended. Detection validates nothing and always returns a result: with
  width 0 or height 0 the scan loops do not run and the result is \<open>found = false\<close>,
  \<open>x = 0\<close>, \<open>y = 0\<close>, \<open>intensity = 0\<close>, \<open>detectedColor = null\<close>; a scanned position
  whose three channel reads do not all lie inside the buffer yields no candidate.
\<close>

theorem invalid_frame_scanned:
  "(width img = 0 \<or> height img = 0 \<longrightarrow> detectLaser img s = notFound) \<and>
   (length (data img) \<le> (y * width img + x) * 4 + 2 \<longrightarrow> scanPixel img s x y = None)"
proof -
  have "detectLaser img s = notFound" if "width img = 0 \<or> height img = 0"
  proof -
    have "scanCandidates img s = []" using that by (intro scanCandidates_empty) auto
    then show ?thesis by (rule detectLaser_no_candidates)
  qed
  moreover have "scanPixel img s x y = None" if "length (data img) \<le> (y * width img + x) * 4 + 2"
    using that by (simp add: scanPixel_def rgbAt_def)
  ultimately show ?thesis by blast
qed

theorem invalid_frame_scanned_witness:
  "(width emptyFrame = 0 \<or> height emptyFrame = 0) \<and>
   detectLaser emptyFrame DEFAULT_SETTINGS = notFound \<and>
   length (data shortFrame) \<le> (0 * width shortFrame + 2) * 4 + 2 \<and>
   scanPixel shortFrame DEFAULT_SETTINGS 2 0 = None"
  using invalid_frame_scanned [where img = emptyFrame and s = DEFAULT_SETTINGS]
    invalid_frame_scanned [where img = shortFrame and s = DEFAULT_SETTINGS and x = 2 and y = 0]
  by (simp add: emptyFrame_def shortFrame_def)


section \<open>Calibration and the thresholds of the scan\<close>

lemma processFrame_detection:
  "found (snd (processFrame st img s)) = found (detectLaser img s) \<and>
   intensity (snd (processFrame st img s)) = intensity (detectLaser img s) \<and>
   detectedColor (snd (processFrame st img s)) = detectedColor (detectLaser img s)"
  by (simp add: processFrame_def Let_def split: prod.splits)

lemma processFrame_ignores_calibration:
  "snd (processFrame (st\<lparr>calibrationData := c\<rparr>) img s) = snd (processFrame st img s)"
  by (simp add: processFrame_def Let_def split: prod.splits)

lemma detect_skipped_pixel:
  assumes "width img = Suc 0" "height img = Suc 0"
    and "rgbAt img 0 = Some (r, g, b)" "fl ((r + g + b) / 3) < bloomThreshold s"
  shows "detectLaser img s = notFound"
proof -
  have "scanPixel img s 0 0 = None"
    using assms by (simp add: scanPixel_def)
  then have "scanCandidates img s = []"
    using assms(1,2) by (simp add: scanCandidates_def stride2_small List.map_filter_def)
  then show ?thesis by (rule detectLaser_no_candidates)
qed

lemma factor_0: "sensitivityFactor (DEFAULT_SETTINGS\<lparr>sensitivity := 0\<rparr>) = 0"
  by (simp add: sensitivityFactor_def fl_zero)

lemma thresholds_0:
  "minScore (DEFAULT_SETTINGS\<lparr>sensitivity := 0\<rparr>) = 200"
  "saturationThreshold (DEFAULT_SETTINGS\<lparr>sensitivity := 0\<rparr>) = 250"
  "bloomThreshold (DEFAULT_SETTINGS\<lparr>sensitivity := 0\<rparr>) = 200"
  "colorMode (DEFAULT_SETTINGS\<lparr>sensitivity := 0\<rparr>) = ModeAuto"
  by (simp_all add: minScore_def saturationThreshold_def bloomThreshold_def factor_0
      default_fields fl_eval)

lemma detect_paleGreen:
  "detectLaser paleGreen (DEFAULT_SETTINGS\<lparr>sensitivity := 0\<rparr>) = notFound"
  by (rule detect_skipped_pixel [where r = 150 and g = 199 and b = 150])
     (simp_all add: paleGreen_def rgbAt_def thresholds_0 fl_values)

lemma calibrate_state:
  "calibrate st settings now inputs =
     st\<lparr>calibrationData :=
          runCalibration \<lparr>frames = [], startTime = now, sessionSensitivity = sensitivity settings\<rparr>
            inputs\<rparr>"
  by (simp add: calibrate_def startCalibration_def)

lemma calibratedState_data:
  "calibrationData calibratedState = Some \<lparr>avgBrightness = Some 0, threshold = Some 100\<rparr>"
proof -
  have "frameBrightness darkFrame = Some 0"
    by (simp add: frameBrightness_def darkFrame_def)
  then show ?thesis
    by (simp add: calibratedState_def calibrate_state collectFrame_def Let_def jsAdd_def
        default_fields)
qed

text \<open>
  Claim C1 says that with a completed calibration the scan takes its thresholds from
  \<open>calibration.derivedThreshold\<close> and uses the constant 200 only without one; the
  detection may then depend on the calibration. \<open>collectFrame\<close> computes and stores
  the threshold, but \<open>detectLaser\<close> is not passed the calibration and \<open>processFrame\<close>
  never reads it. After a calibration on a black frame the stored threshold is 100, yet
  at sensitivity 0 the scan still works with bloom threshold 200: the pixel of
  brightness 166 is skipped, where a scan from the stored threshold 100 would take it
  as a candidate, and the detection is the one obtained with no calibration.
\<close>

theorem calibration_ignored:
  "calibrationData calibratedState = Some \<lparr>avgBrightness = Some 0, threshold = Some 100\<rparr> \<and>
   spec_baseThreshold (calibrationData calibratedState) = Some 100 \<and>
   spec_baseThreshold (calibrationData initialState) = Some 200 \<and>
   bloomThreshold (DEFAULT_SETTINGS\<lparr>sensitivity := 0\<rparr>) = 200 \<and>
   saturationThreshold (DEFAULT_SETTINGS\<lparr>sensitivity := 0\<rparr>) = 250 \<and>
   brightnessAt paleGreen 0 0 = Some (5852333890775723 / 35184372088832) \<and>
   snd (processFrame calibratedState paleGreen (DEFAULT_SETTINGS\<lparr>sensitivity := 0\<rparr>)) =
     \<lparr>found = False, det_x = 0, det_y = 0, intensity = 0, detectedColor = None\<rparr> \<and>
   snd (processFrame initialState paleGreen (DEFAULT_SETTINGS\<lparr>sensitivity := 0\<rparr>)) =
     \<lparr>found = False, det_x = 0, det_y = 0, intensity = 0, detectedColor = None\<rparr>"
proof -
  have "snd (processFrame st paleGreen (DEFAULT_SETTINGS\<lparr>sensitivity := 0\<rparr>)) = notFound" for st
    by (simp add: processFrame_def detect_paleGreen notFound_def)
  moreover have "brightnessAt paleGreen 0 0 = Some (5852333890775723 / 35184372088832)"
    by (simp add: brightnessAt_def rgbAt_def paleGreen_def fl_values)
  ultimately show ?thesis
    by (simp add: spec_baseThreshold_def calibratedState_data thresholds_0 notFound_def
        initialState_def)
qed

section \<open>Settings out of range\<close>

lemma factor_100: "sensitivityFactor (DEFAULT_SETTINGS\<lparr>sensitivity := 100\<rparr>) = 1"
  by (simp add: sensitivityFactor_def fl_values)

lemma thresholds_100:
  "bloomThreshold (DEFAULT_SETTINGS\<lparr>sensitivity := 100\<rparr>) = 120"
  by (simp add: bloomThreshold_def factor_100 fl_eval)

lemma detect_faintGreen_100:
  "detectLaser faintGreen (DEFAULT_SETTINGS\<lparr>sensitivity := 100\<rparr>) = notFound"
  by (rule detect_skipped_pixel [where r = 50 and g = 100 and b = 50])
     (simp_all add: faintGreen_def rgbAt_def thresholds_100 fl_values)

lemma factor_200: "sensitivityFactor (DEFAULT_SETTINGS\<lparr>sensitivity := 200\<rparr>) = 2"
  by (simp add: sensitivityFactor_def fl_eval)

lemma thresholds_200:
  "minScore (DEFAULT_SETTINGS\<lparr>sensitivity := 200\<rparr>) = 0"
  "saturationThreshold (DEFAULT_SETTINGS\<lparr>sensitivity := 200\<rparr>) = 150"
  "bloomThreshold (DEFAULT_SETTINGS\<lparr>sensitivity := 200\<rparr>) = 40"
  "colorMode (DEFAULT_SETTINGS\<lparr>sensitivity := 200\<rparr>) = ModeAuto"
  by (simp_all add: minScore_def saturationThreshold_def bloomThreshold_def factor_200
      default_fields fl_eval)

lemma bloom_200:
  "fl (bloomThreshold (DEFAULT_SETTINGS\<lparr>sensitivity := 200\<rparr>) * fl (7 / 10)) = 28"
  "fl (fl (3 / 20) - fl (sensitivityFactor (DEFAULT_SETTINGS\<lparr>sensitivity := 200\<rparr>) * fl (1 / 10))) =
     - (1801439850948199 / 36028797018963968)"
  by (simp_all add: thresholds_200 factor_200 fl_consts fl_eval)

lemma scan_faintGreen_200:
  "scanCandidates faintGreen (DEFAULT_SETTINGS\<lparr>sensitivity := 200\<rparr>) =
     [\<lparr>cand_x = 0, cand_y = 0, cand_r = 50, cand_g = 100, cand_b = 50, score = 200\<rparr>]"
proof -
  have c: "redCheck (DEFAULT_SETTINGS\<lparr>sensitivity := 200\<rparr>) 50 100 50
          (greenCheck (DEFAULT_SETTINGS\<lparr>sensitivity := 200\<rparr>) 50 100 50) = (True, 200)"
    by (simp add: check_defs thresholds_200)
  have "scanPixel faintGreen (DEFAULT_SETTINGS\<lparr>sensitivity := 200\<rparr>) 0 0 =
     Some \<lparr>cand_x = 0, cand_y = 0, cand_r = 50, cand_g = 100, cand_b = 50, score = 200\<rparr>"
    by (simp add: pixel_defs faintGreen_def c thresholds_200)
  moreover have "width faintGreen = Suc 0" "height faintGreen = Suc 0"
    by (simp_all add: faintGreen_def)
  ultimately show ?thesis
    by (simp add: scanCandidates_def stride2_small List.map_filter_def)
qed

lemma bloom_faintGreen_200:
  "bloomCounts faintGreen (DEFAULT_SETTINGS\<lparr>sensitivity := 200\<rparr>)
     \<lparr>cand_x = 0, cand_y = 0, cand_r = 50, cand_g = 100, cand_b = 50, score = 200\<rparr> = (1, 1)"
  by (simp add: faintGreen_def bloom_200 bloom_defs)

lemma refine_faintGreen_200:
  "refineSums faintGreen (DEFAULT_SETTINGS\<lparr>sensitivity := 200\<rparr>)
     \<lparr>cand_x = 0, cand_y = 0, cand_r = 50, cand_g = 100, cand_b = 50, score = 200\<rparr> = (0, 0, 0)"
  by (simp add: faintGreen_def thresholds_200 refine_defs)

lemma detect_faintGreen_200:
  "detectLaser faintGreen (DEFAULT_SETTINGS\<lparr>sensitivity := 200\<rparr>) =
     \<lparr>found = True, det_x = 0, det_y = 0, intensity = 50, detectedColor = Some Green\<rparr>"
proof -
  have b: "hasBloom faintGreen (DEFAULT_SETTINGS\<lparr>sensitivity := 200\<rparr>)
     \<lparr>cand_x = 0, cand_y = 0, cand_r = 50, cand_g = 100, cand_b = 50, score = 200\<rparr>"
    by (simp add: hasBloom_def bloom_faintGreen_200 bloom_200 fl_values)
  have p: "refinedPosition faintGreen (DEFAULT_SETTINGS\<lparr>sensitivity := 200\<rparr>)
     \<lparr>cand_x = 0, cand_y = 0, cand_r = 50, cand_g = 100, cand_b = 50, score = 200\<rparr> = (0, 0)"
    by (simp add: refinedPosition_def refine_faintGreen_200)
  show ?thesis
    by (simp add: detectLaser_def sortCandidates_def scan_faintGreen_200 b p thresholds_200
        round_quarters)
qed

lemma factor_minus: "sensitivityFactor (DEFAULT_SETTINGS\<lparr>sensitivity := - 50\<rparr>) = - (1 / 2)"
  by (simp add: sensitivityFactor_def fl_eval)

lemma thresholds_minus:
  "saturationThreshold (DEFAULT_SETTINGS\<lparr>sensitivity := - 50\<rparr>) = 275"
  "bloomThreshold (DEFAULT_SETTINGS\<lparr>sensitivity := - 50\<rparr>) = 240"
  "colorMode (DEFAULT_SETTINGS\<lparr>sensitivity := - 50\<rparr>) = ModeAuto"
  by (simp_all add: saturationThreshold_def bloomThreshold_def factor_minus default_fields
      fl_eval)

lemma detect_whitePixel_minus:
  "detectLaser whitePixel (DEFAULT_SETTINGS\<lparr>sensitivity := - 50\<rparr>) = notFound"
proof -
  have c: "redCheck (DEFAULT_SETTINGS\<lparr>sensitivity := - 50\<rparr>) 255 255 255
          (greenCheck (DEFAULT_SETTINGS\<lparr>sensitivity := - 50\<rparr>) 255 255 255) = (False, 0)"
    by (simp add: check_defs thresholds_minus)
  have "scanPixel whitePixel (DEFAULT_SETTINGS\<lparr>sensitivity := - 50\<rparr>) 0 0 = None"
    by (simp add: pixel_defs whitePixel_def c thresholds_minus)
  moreover have "width whitePixel = Suc 0" "height whitePixel = Suc 0"
    by (simp_all add: whitePixel_def)
  ultimately have "scanCandidates whitePixel (DEFAULT_SETTINGS\<lparr>sensitivity := - 50\<rparr>) = []"
    by (simp add: scanCandidates_def stride2_small List.map_filter_def)
  then show ?thesis by (rule detectLaser_no_candidates)
qed

lemma bloom_0:
  "fl (bloomThreshold (DEFAULT_SETTINGS\<lparr>sensitivity := 0\<rparr>) * fl (7 / 10)) = 140"
  "fl (fl (3 / 20) - fl (sensitivityFactor (DEFAULT_SETTINGS\<lparr>sensitivity := 0\<rparr>) * fl (1 / 10))) =
     5404319552844595 / 36028797018963968"
  by (simp_all add: thresholds_0 factor_0 fl_consts fl_eval)

lemma detect_whitePixel_0:
  "detectLaser whitePixel (DEFAULT_SETTINGS\<lparr>sensitivity := 0\<rparr>) =
     \<lparr>found = True, det_x = 0, det_y = 0, intensity = 89, detectedColor = Some Red\<rparr>"
proof -
  let ?s = "DEFAULT_SETTINGS\<lparr>sensitivity := 0\<rparr>"
  let ?c = "\<lparr>cand_x = 0, cand_y = 0, cand_r = 255, cand_g = 255, cand_b = 255, score = 355\<rparr>"
  have c: "redCheck ?s 255 255 255 (greenCheck ?s 255 255 255) = (True, 355)"
    by (simp add: check_defs thresholds_0)
  have "scanPixel whitePixel ?s 0 0 = Some ?c"
    by (simp add: pixel_defs whitePixel_def c thresholds_0)
  moreover have "width whitePixel = Suc 0" "height whitePixel = Suc 0"
    by (simp_all add: whitePixel_def)
  ultimately have scan: "scanCandidates whitePixel ?s = [?c]"
    by (simp add: scanCandidates_def stride2_small List.map_filter_def)
  have "bloomCounts whitePixel ?s ?c = (1, 1)"
    by (simp add: whitePixel_def bloom_0 bloom_defs)
  then have b: "hasBloom whitePixel ?s ?c"
    by (simp add: hasBloom_def bloom_0 fl_values)
  have "refineSums whitePixel ?s ?c = (0, 0, 255)"
    by (simp add: whitePixel_def thresholds_0 refine_defs)
  then have p: "refinedPosition whitePixel ?s ?c = (0, 0)"
    by (simp add: refinedPosition_def fl_zero)
  show ?thesis
    by (simp add: detectLaser_def sortCandidates_def scan b p thresholds_0 round_quarters)
qed

lemma processFrame_greenSpot:
  "0 < w \<Longrightarrow>
   processFrame st greenSpot (DEFAULT_SETTINGS\<lparr>smoothing := w\<rparr>) =
     (st\<lparr>positionHistory := fst (smoothPosition (positionHistory st) 1 0 w)\<rparr>,
      \<lparr>found = True, det_x = fst (snd (smoothPosition (positionHistory st) 1 0 w)),
       det_y = snd (snd (smoothPosition (positionHistory st) 1 0 w)),
       intensity = 76, detectedColor = Some Green\<rparr>)"
  by (simp add: processFrame_def detectLaser_smoothing detect_greenSpot split: prod.splits)

text \<open>
  Claim C3 says that sensitivity is clamped to 0..100 and smoothing to 0..10 before
  use, so that an out-of-range value behaves as the nearest bound. Sensitivity 200 is
  used as it is: it lowers the bloom threshold to 40 and the faint pixel is reported as
  a beam, whereas with the clamped value 100 the pixel is skipped. Sensitivity -50
  raises the saturation threshold to 275 and the white pixel is no candidate, whereas
  with the clamped value 0 it is reported as a beam. Smoothing 11 keeps twelve
  positions in the history and reports their mean, whereas with the clamped value 10
  the oldest is dropped.
\<close>

theorem clamping_counterexample:
  "clampSettings (DEFAULT_SETTINGS\<lparr>sensitivity := 200\<rparr>) = DEFAULT_SETTINGS\<lparr>sensitivity := 100\<rparr> \<and>
   detectLaser faintGreen (DEFAULT_SETTINGS\<lparr>sensitivity := 200\<rparr>) =
     \<lparr>found = True, det_x = 0, det_y = 0, intensity = 50, detectedColor = Some Green\<rparr> \<and>
   detectLaser faintGreen (clampSettings (DEFAULT_SETTINGS\<lparr>sensitivity := 200\<rparr>)) =
     \<lparr>found = False, det_x = 0, det_y = 0, intensity = 0, detectedColor = None\<rparr> \<and>
   clampSettings (DEFAULT_SETTINGS\<lparr>sensitivity := - 50\<rparr>) = DEFAULT_SETTINGS\<lparr>sensitivity := 0\<rparr> \<and>
   detectLaser whitePixel (DEFAULT_SETTINGS\<lparr>sensitivity := - 50\<rparr>) =
     \<lparr>found = False, det_x = 0, det_y = 0, intensity = 0, detectedColor = None\<rparr> \<and>
   detectLaser whitePixel (clampSettings (DEFAULT_SETTINGS\<lparr>sensitivity := - 50\<rparr>)) =
     \<lparr>found = True, det_x = 0, det_y = 0, intensity = 89, detectedColor = Some Red\<rparr> \<and>
   clampSettings (DEFAULT_SETTINGS\<lparr>smoothing := 11\<rparr>) = DEFAULT_SETTINGS\<lparr>smoothing := 10\<rparr> \<and>
   snd (processFrame fullHistory greenSpot (DEFAULT_SETTINGS\<lparr>smoothing := 11\<rparr>)) =
     \<lparr>found = True, det_x = 23 / 12, det_y = 0, intensity = 76, detectedColor = Some Green\<rparr> \<and>
   length (positionHistory
     (fst (processFrame fullHistory greenSpot (DEFAULT_SETTINGS\<lparr>smoothing := 11\<rparr>)))) = 12 \<and>
   snd (processFrame fullHistory greenSpot (clampSettings (DEFAULT_SETTINGS\<lparr>smoothing := 11\<rparr>))) =
     \<lparr>found = True, det_x = 1, det_y = 0, intensity = 76, detectedColor = Some Green\<rparr> \<and>
   length (positionHistory
     (fst (processFrame fullHistory greenSpot
        (clampSettings (DEFAULT_SETTINGS\<lparr>smoothing := 11\<rparr>))))) = 11"
proof -
  have c1: "clampSettings (DEFAULT_SETTINGS\<lparr>sensitivity := 200\<rparr>) =
        DEFAULT_SETTINGS\<lparr>sensitivity := 100\<rparr>"
    and c2: "clampSettings (DEFAULT_SETTINGS\<lparr>sensitivity := - 50\<rparr>) =
        DEFAULT_SETTINGS\<lparr>sensitivity := 0\<rparr>"
    and c3: "clampSettings (DEFAULT_SETTINGS\<lparr>smoothing := 11\<rparr>) =
        DEFAULT_SETTINGS\<lparr>smoothing := 10\<rparr>"
    by (simp_all add: clampSettings_def DEFAULT_SETTINGS_def)
  have h: "positionHistory fullHistory =
      [(12, 0), (1, 0), (1, 0), (1, 0), (1, 0), (1, 0), (1, 0), (1, 0), (1, 0), (1, 0), (1, 0)]"
    by (simp add: fullHistory_def)
  show ?thesis
    unfolding c1 c2 c3
    by (simp add: detect_faintGreen_200 detect_faintGreen_100 detect_whitePixel_minus
        detect_whitePixel_0 notFound_def processFrame_greenSpot h smoothPosition_def)
qed

text \<open>
  Claim C3 as amended. No settings value is rejected. A smoothing value below 0 behaves
  exactly as the bound 0: for every sensitivity from 0 to 100 and every smoothing value
  up to 10, negative ones included, a frame is processed exactly as with the clamped
  settings, in the result and in the state left behind. A sensitivity outside 0..100
  and a smoothing value above 10 are not clamped: they can give a result that differs
  from that of the nearest bound.
\<close>

theorem clamping_below_range:
  assumes "0 \<le> sensitivity s" and "sensitivity s \<le> 100" and "smoothing s \<le> 10"
  shows "processFrame st img (clampSettings s) = processFrame st img s"
proof (cases "0 \<le> smoothing s")
  case True
  with assms have "clampSettings s = s" by (simp add: clampSettings_def)
  then show ?thesis by simp
next
  case False
  with assms have c: "clampSettings s = s\<lparr>smoothing := 0\<rparr>"
    by (simp add: clampSettings_def)
  have "detectLaser img (s\<lparr>smoothing := 0\<rparr>) = detectLaser img s"
    by (rule detectLaser_smoothing)
  with False show ?thesis
    unfolding c by (simp add: processFrame_def)
qed

theorem clamping_below_range_witness:
  "0 \<le> sensitivity (DEFAULT_SETTINGS\<lparr>smoothing := - 2\<rparr>) \<and>
   sensitivity (DEFAULT_SETTINGS\<lparr>smoothing := - 2\<rparr>) \<le> 100 \<and>
   smoothing (DEFAULT_SETTINGS\<lparr>smoothing := - 2\<rparr>) \<le> 10 \<and>
   clampSettings (DEFAULT_SETTINGS\<lparr>smoothing := - 2\<rparr>) = DEFAULT_SETTINGS\<lparr>smoothing := 0\<rparr> \<and>
   processFrame fullHistory greenSpot (DEFAULT_SETTINGS\<lparr>smoothing := 0\<rparr>) =
     (fullHistory,
      \<lparr>found = True, det_x = 1, det_y = 0, intensity = 76, detectedColor = Some Green\<rparr>) \<and>
   processFrame fullHistory greenSpot (DEFAULT_SETTINGS\<lparr>smoothing := - 2\<rparr>) =
     (fullHistory,
      \<lparr>found = True, det_x = 1, det_y = 0, intensity = 76, detectedColor = Some Green\<rparr>)"
proof -
  have c: "clampSettings (DEFAULT_SETTINGS\<lparr>smoothing := - 2\<rparr>) = DEFAULT_SETTINGS\<lparr>smoothing := 0\<rparr>"
    by (simp add: clampSettings_def DEFAULT_SETTINGS_def)
  have p: "processFrame fullHistory greenSpot (DEFAULT_SETTINGS\<lparr>smoothing := 0\<rparr>) =
     (fullHistory,
      \<lparr>found = True, det_x = 1, det_y = 0, intensity = 76, detectedColor = Some Green\<rparr>)"
    by (simp add: processFrame_def detectLaser_smoothing detect_greenSpot)
  show ?thesis
    using clamping_below_range [where s = "DEFAULT_SETTINGS\<lparr>smoothing := - 2\<rparr>"
        and st = fullHistory and img = greenSpot]
    by (simp add: c p default_fields)
qed

section \<open>The position history\<close>

lemma foldl_add_fst: "foldl (\<lambda>sum p. sum + fst p) a h = a + sum_list (map fst h)"
  for a :: real and h :: "(real \<times> real) list"
  by (induction h arbitrary: a) simp_all

lemma foldl_add_snd: "foldl (\<lambda>sum p. sum + snd p) a h = a + sum_list (map snd h)"
  for a :: real and h :: "(real \<times> real) list"
  by (induction h arbitrary: a) simp_all

lemma smoothPosition_eq:
  "smoothPosition h x y w =
     (let h' = (if real (length h) + 1 > w + 1 then tl (h @ [(x, y)]) else h @ [(x, y)])
      in (h', if h' = [] then (x, y) else meanPosition h'))"
proof (cases "real (length h) + 1 > w + 1")
  case True
  then show ?thesis
    by (simp add: smoothPosition_def Let_def meanPosition_def foldl_add_fst foldl_add_snd)
next
  case False
  then show ?thesis
    by (simp add: smoothPosition_def Let_def meanPosition_def foldl_add_fst foldl_add_snd)
qed


lemma smoothPosition_mean:
  "fst (smoothPosition h x y w) \<noteq> [] \<Longrightarrow>
   snd (smoothPosition h x y w) = meanPosition (fst (smoothPosition h x y w))"
  by (simp add: smoothPosition_eq Let_def)

lemma smoothPosition_empty:
  "smoothPosition [] x y w = (if w < 0 then ([], (x, y)) else ([(x, y)], (x, y)))"
  by (simp add: smoothPosition_eq Let_def meanPosition_def)




section \<open>Reset on loss\<close>

text \<open>
  Claim C8. After a processed frame that reports \<open>found = false\<close> the position history
  is empty, and the next processed frame that reports \<open>found = true\<close> reports the raw
  refined position of \<open>detectLaser\<close>, whatever the history held before the gap.
\<close>

theorem reset_on_loss:
  assumes "processFrame st img1 s1 = (st1, d1)" and "\<not> found d1"
  shows "positionHistory st1 = [] \<and>
         (found (snd (processFrame st1 img2 s2)) \<longrightarrow>
            snd (processFrame st1 img2 s2) = detectLaser img2 s2)"
proof -
  have nf: "\<not> found (detectLaser img1 s1)"
    using assms processFrame_detection [of st img1 s1] by simp
  then have "processFrame st img1 s1 = (st\<lparr>positionHistory := []\<rparr>, detectLaser img1 s1)"
    by (simp add: processFrame_def Let_def)
  with assms(1) have empty: "positionHistory st1 = []" by auto
  have "snd (processFrame st1 img2 s2) = detectLaser img2 s2"
    by (simp add: processFrame_def Let_def empty smoothPosition_empty)
  with empty show ?thesis by simp
qed

theorem reset_on_loss_witness:
  "processFrame \<lparr>positionHistory = [(9, 9), (8, 8)], calibrationData = None\<rparr> dimFrame
      DEFAULT_SETTINGS = (initialState, notFound) \<and>
   \<not> found notFound \<and>
   positionHistory initialState = [] \<and>
   found (snd (processFrame initialState greenSpot DEFAULT_SETTINGS)) \<and>
   snd (processFrame initialState greenSpot DEFAULT_SETTINGS) =
     \<lparr>found = True, det_x = 1, det_y = 0, intensity = 76, detectedColor = Some Green\<rparr>"
proof -
  have p: "processFrame \<lparr>positionHistory = [(9, 9), (8, 8)], calibrationData = None\<rparr> dimFrame
      DEFAULT_SETTINGS = (initialState, notFound)"
    by (simp add: processFrame_def detect_dimFrame notFound_def initialState_def)
  have n: "\<not> found notFound" by (simp add: notFound_def)
  show ?thesis
    using p n reset_on_loss [OF p n, of greenSpot DEFAULT_SETTINGS]
    by (simp add: processFrame_detection detect_greenSpot)
qed

section \<open>The calibration result\<close>

lemma sumBrightness_whole:
  "length d = 4 * n \<Longrightarrow>
   sumBrightness t d = Some (t + sum_list (map (pixelBrightness d) [0..<n]))"
proof (induction n arbitrary: d t)
  case 0
  then show ?case by simp
next
  case (Suc n)
  from Suc.prems have "length d = Suc (Suc (Suc (Suc (4 * n))))" by simp
  then obtain r g b a rest where d: "d = r # g # b # a # rest" and len: "length rest = 4 * n"
    by (auto simp: length_Suc_conv)
  have shift: "pixelBrightness d (Suc p) = pixelBrightness rest p" for p
    by (simp add: pixelBrightness_def d)
  have first: "pixelBrightness d 0 = (real (unat r) + real (unat g) + real (unat b)) / 3"
    by (simp add: pixelBrightness_def d)
  have "[0..<Suc n] = 0 # map Suc [0..<n]"
    by (simp add: upt_conv_Cons map_Suc_upt del: upt_Suc)
  then have "sum_list (map (pixelBrightness d) [0..<Suc n]) =
      pixelBrightness d 0 + sum_list (map (pixelBrightness rest) [0..<n])"
    by (simp add: comp_def shift del: upt_Suc)
  moreover have "sumBrightness t d =
      Some (t + (real (unat r) + real (unat g) + real (unat b)) / 3 +
              sum_list (map (pixelBrightness rest) [0..<n]))"
    using Suc.IH [OF len] by (simp add: d)
  ultimately show ?case by (simp add: first)
qed

lemma frameBrightness_wellFormed:
  assumes "wellFormed img"
  shows "frameBrightness img = Some (meanBrightness img)"
proof -
  from assms have len: "length (data img) = 4 * (width img * height img)"
    and pos: "0 < width img * height img"
    by (simp_all add: wellFormed_def)
  have "real (length (data img)) / 4 = real (width img * height img)"
    by (simp add: len)
  moreover have "length (data img) \<noteq> 0" using len pos by simp
  ultimately show ?thesis
    by (simp add: frameBrightness_def sumBrightness_whole [OF len] meanBrightness_def)
qed

lemma foldl_jsAdd: "foldl jsAdd (Some a) (map Some xs) = Some (a + sum_list xs)"
  by (induction xs arbitrary: a) (simp_all add: jsAdd_def add.assoc)

lemma collectFrame_early:
  "now - startTime session < 2000 \<Longrightarrow>
   collectFrame session img now =
     (session\<lparr>frames := frames session @ [frameBrightness img]\<rparr>, None)"
  by (simp add: collectFrame_def Let_def)

lemma runCalibration_early:
  assumes "list_all (\<lambda>(f, t). t - startTime session < 2000) pre"
  shows "runCalibration session (pre @ rest) =
           runCalibration (session\<lparr>frames := frames session @ map (\<lambda>(f, t). frameBrightness f) pre\<rparr>)
             rest"
  using assms
proof (induction pre arbitrary: session)
  case Nil
  then show ?case by simp
next
  case (Cons ft pre)
  obtain f t where ft: "ft = (f, t)" by (cases ft)
  from Cons.prems have early: "t - startTime session < 2000"
    and others: "list_all (\<lambda>(g, u). u - startTime (session\<lparr>frames := frames session @ [frameBrightness f]\<rparr>) < 2000) pre"
    by (simp_all add: ft)
  show ?case
    using Cons.IH [OF others] by (simp add: ft collectFrame_early [OF early])
qed

lemma collectFrame_expired:
  assumes "\<not> now - startTime session < 2000"
    and "frames session @ [frameBrightness img] = map Some xs"
  shows "snd (collectFrame session img now) =
           Some \<lparr>avgBrightness = Some (mean xs),
                 threshold = Some (mean xs + 50 + (100 - sessionSensitivity session))\<rparr>"
proof -
  have "length (frames session @ [frameBrightness img]) = length xs"
    using assms(2) by (metis length_map)
  then show ?thesis
    using assms by (simp add: collectFrame_def Let_def foldl_jsAdd mean_def)
qed

text \<open>
  Claim C9. A calibration started at time \<open>start\<close> that receives frames before the
  2000 ms window has expired stores nothing; the first frame read at or after expiry
  completes it, with \<open>averageBrightness\<close> the arithmetic mean of the averages of all
  frames read (each the mean of \<open>(R + G + B) / 3\<close> over the pixels of the frame) and
  \<open>derivedThreshold = averageBrightness + 50 + (100 - sensitivity)\<close>.
\<close>

theorem calibration_result:
  assumes "list_all (\<lambda>(f, t). wellFormed f \<and> t - start < 2000) pre"
    and "wellFormed img" and "2000 \<le> now - start"
  shows "runCalibration (snd (startCalibration st settings start)) pre = None \<and>
         calibrationData (calibrate st settings start pre) = None \<and>
         runCalibration (snd (startCalibration st settings start)) (pre @ [(img, now)]) =
           Some \<lparr>avgBrightness = Some (mean (map meanBrightness (map fst pre @ [img]))),
                 threshold = Some (mean (map meanBrightness (map fst pre @ [img]))
                                     + 50 + (100 - sensitivity settings))\<rparr> \<and>
         calibrationData (calibrate st settings start (pre @ [(img, now)])) =
           Some \<lparr>avgBrightness = Some (mean (map meanBrightness (map fst pre @ [img]))),
                 threshold = Some (mean (map meanBrightness (map fst pre @ [img]))
                                     + 50 + (100 - sensitivity settings))\<rparr>"
proof -
  let ?s0 = "snd (startCalibration st settings start)"
  let ?s1 = "?s0\<lparr>frames := frames ?s0 @ map (\<lambda>(f, t). frameBrightness f) pre\<rparr>"
  have s0: "startTime ?s0 = start" "frames ?s0 = []" "sessionSensitivity ?s0 = sensitivity settings"
    by (simp_all add: startCalibration_def)
  have cal: "calibrationData (calibrate st settings start inputs) = runCalibration ?s0 inputs"
    for inputs
    by (simp add: calibrate_def startCalibration_def)
  from assms(1) have early: "list_all (\<lambda>(f, t). t - startTime ?s0 < 2000) pre"
    by (simp add: s0 list_all_iff case_prod_unfold)
  from assms(1) have wf: "\<forall>ft \<in> set pre. wellFormed (fst ft)"
    by (auto simp: list_all_iff)
  have run: "runCalibration ?s0 (pre @ rest) = runCalibration ?s1 rest" for rest
    by (rule runCalibration_early [OF early])
  have none: "runCalibration ?s0 pre = None"
    using run [of "[]"] by simp
  have "map (\<lambda>(f, t). frameBrightness f) pre = map Some (map meanBrightness (map fst pre))"
    using wf by (auto simp: frameBrightness_wellFormed)
  then have fs: "frames ?s1 @ [frameBrightness img] =
      map Some (map meanBrightness (map fst pre @ [img]))"
    by (simp add: s0 frameBrightness_wellFormed [OF assms(2)])
  have late: "\<not> now - startTime ?s1 < 2000"
    using assms(3) by (simp add: s0)
  have "runCalibration ?s1 [(img, now)] = snd (collectFrame ?s1 img now)"
    by (simp split: prod.splits option.splits)
  also have "\<dots> = Some \<lparr>avgBrightness = Some (mean (map meanBrightness (map fst pre @ [img]))),
                 threshold = Some (mean (map meanBrightness (map fst pre @ [img]))
                                     + 50 + (100 - sessionSensitivity ?s1))\<rparr>"
    by (rule collectFrame_expired [OF late fs])
  finally have some: "runCalibration ?s0 (pre @ [(img, now)]) =
      Some \<lparr>avgBrightness = Some (mean (map meanBrightness (map fst pre @ [img]))),
            threshold = Some (mean (map meanBrightness (map fst pre @ [img]))
                                + 50 + (100 - sensitivity settings))\<rparr>"
    by (simp add: run s0)
  from none some show ?thesis
    by (simp only: cal simp_thms)
qed

lemma sample_brightness:
  "wellFormed grayFrame" "wellFormed dimFrame"
  "meanBrightness grayFrame = 128" "meanBrightness dimFrame = 380 / 3"
  unfolding wellFormed_def meanBrightness_def pixelBrightness_def grayFrame_def dimFrame_def
  by code_simp+

theorem calibration_result_witness:
  "list_all (\<lambda>(f, t). wellFormed f \<and> t - 1000 < 2000) [(grayFrame, 1016 :: int)] \<and>
   wellFormed dimFrame \<and> (2000::int) \<le> 3000 - 1000 \<and>
   runCalibration (snd (startCalibration initialState DEFAULT_SETTINGS 1000))
     [(grayFrame, 1016)] = None \<and>
   runCalibration (snd (startCalibration initialState DEFAULT_SETTINGS 1000))
     [(grayFrame, 1016), (dimFrame, 3000)] =
       Some \<lparr>avgBrightness = Some (382 / 3), threshold = Some (682 / 3)\<rparr> \<and>
   calibrationData (calibrate initialState DEFAULT_SETTINGS 1000
     [(grayFrame, 1016), (dimFrame, 3000)]) =
       Some \<lparr>avgBrightness = Some (382 / 3), threshold = Some (682 / 3)\<rparr>"
proof -
  have h: "list_all (\<lambda>(f, t). wellFormed f \<and> t - 1000 < 2000) [(grayFrame, 1016 :: int)]"
    by (simp add: sample_brightness)
  show ?thesis
    using h calibration_result [OF h sample_brightness(2), of 3000 initialState DEFAULT_SETTINGS]
    by (simp add: sample_brightness mean_def default_fields)
qed


section \<open>Centroid refinement\<close>

lemma refineStep_saturatedAt:
  "refineStep img s c (a, b, w) d =
     (foldl (\<lambda>a (nx, ny, br). fl (a + fl (real_of_int nx * br))) a (saturatedAt img s c d),
      foldl (\<lambda>a (nx, ny, br). fl (a + fl (real_of_int ny * br))) b (saturatedAt img s c d),
      foldl (\<lambda>a (nx, ny, br). fl (a + br)) w (saturatedAt img s c d))"
  by (auto simp: refineStep_def saturatedAt_def inBounds_def Let_def split: option.splits)

lemma refine_fold:
  "foldl (refineStep img s c) (a, b, w) ds =
     (foldl (\<lambda>a (nx, ny, br). fl (a + fl (real_of_int nx * br))) a
        (concat (map (saturatedAt img s c) ds)),
      foldl (\<lambda>a (nx, ny, br). fl (a + fl (real_of_int ny * br))) b
        (concat (map (saturatedAt img s c) ds)),
      foldl (\<lambda>a (nx, ny, br). fl (a + br)) w (concat (map (saturatedAt img s c) ds)))"
proof (induction ds arbitrary: a b w)
  case Nil
  then show ?case by simp
next
  case (Cons d ds)
  show ?case
    by (simp only: foldl_Cons refineStep_saturatedAt Cons.IH list.map concat.simps foldl_append)
qed

lemma refineSums_saturatedNeighbours:
  "refineSums img s c =
     (foldl (\<lambda>a (nx, ny, br). fl (a + fl (real_of_int nx * br))) 0 (saturatedNeighbours img s c),
      foldl (\<lambda>a (nx, ny, br). fl (a + fl (real_of_int ny * br))) 0 (saturatedNeighbours img s c),
      foldl (\<lambda>a (nx, ny, br). fl (a + br)) 0 (saturatedNeighbours img s c))"
  unfolding refineSums_def refineOffsets_def saturatedNeighbours_def squareOffsets_def
  by (simp only: refine_fold)

lemma rgbAt_nonneg: "rgbAt img i = Some (r, g, b) \<Longrightarrow> 0 \<le> r \<and> 0 \<le> g \<and> 0 \<le> b"
  by (auto simp: rgbAt_def simp del: of_nat_unat split: if_splits)

lemma brightnessAt_nonneg: "brightnessAt img nx ny = Some br \<Longrightarrow> 0 \<le> br"
proof -
  assume "brightnessAt img nx ny = Some br"
  then obtain r g b where rgb: "rgbAt img (nat ((ny * int (width img) + nx) * 4)) = Some (r, g, b)"
    and br: "br = fl ((r + g + b) / 3)"
    by (auto simp: brightnessAt_def)
  from rgbAt_nonneg [OF rgb] have "0 \<le> (r + g + b) / 3" by simp
  then show ?thesis unfolding br by (rule fl_nonneg)
qed

lemma saturatedAt_cases:
  "saturatedAt img s c d = [] \<or>
   (\<exists>nx ny br. saturatedAt img s c d = [(nx, ny, br)] \<and>
      brightnessAt img nx ny = Some br \<and> saturationThreshold s < br)"
  by (simp add: saturatedAt_def Let_def split: option.splits)

lemma saturatedAt_member:
  assumes "e \<in> set (saturatedAt img s c d)"
  shows "brightnessAt img (fst e) (fst (snd e)) = Some (snd (snd e)) \<and>
         saturationThreshold s < snd (snd e)"
proof -
  from assms have "saturatedAt img s c d \<noteq> []" by auto
  with saturatedAt_cases [of img s c d] obtain nx ny br
    where one: "saturatedAt img s c d = [(nx, ny, br)]"
      and br: "brightnessAt img nx ny = Some br" "saturationThreshold s < br"
    by blast
  from assms have "e = (nx, ny, br)" unfolding one by simp
  with br show ?thesis by simp
qed

lemma saturatedNeighbours_weight:
  assumes "e \<in> set (saturatedNeighbours img s c)"
  shows "0 \<le> snd (snd e) \<and> saturationThreshold s < snd (snd e)"
proof -
  from assms obtain d where "e \<in> set (saturatedAt img s c d)"
    by (auto simp: saturatedNeighbours_def)
  then have "brightnessAt img (fst e) (fst (snd e)) = Some (snd (snd e)) \<and>
      saturationThreshold s < snd (snd e)"
    by (rule saturatedAt_member)
  then show ?thesis
    using brightnessAt_nonneg by blast
qed

lemma scanPixel_brightness:
  assumes "scanPixel img s x y = Some c"
  shows "cand_x c = x \<and> cand_y c = y \<and>
         (\<exists>br. brightnessAt img (int x) (int y) = Some br \<and> 0 < br)"
proof -
  from assms obtain r g b where rgb: "rgbAt img ((y * width img + x) * 4) = Some (r, g, b)"
    by (auto simp: scanPixel_def split: option.splits)
  then have nonneg: "0 \<le> r" "0 \<le> g" "0 \<le> b"
    using rgbAt_nonneg by blast+
  from assms rgb have c: "cand_x c = x" "cand_y c = y"
    and pos: "0 < snd (redCheck s r g b (greenCheck s r g b))"
    by (auto simp: scanPixel_def Let_def split: if_splits)
  have "0 < r + g + b"
  proof (rule ccontr)
    assume "\<not> 0 < r + g + b"
    with nonneg have "r = 0" "g = 0" "b = 0" by simp_all
    then have "snd (redCheck s r g b (greenCheck s r g b)) = 0"
      by (simp add: redCheck_def greenCheck_def Let_def fl_zero)
    with pos show False by simp
  qed
  then have "0 < fl ((r + g + b) / 3)" by (intro fl_pos) simp
  moreover have "nat ((int y * int (width img) + int x) * 4) = (y * width img + x) * 4"
    by (simp add: nat_mult_distrib nat_add_distrib)
  ultimately have "brightnessAt img (int x) (int y) = Some (fl ((r + g + b) / 3)) \<and>
      0 < fl ((r + g + b) / 3)"
    using rgb by (simp add: brightnessAt_def)
  with c show ?thesis by blast
qed

lemma zero_offset_in_square: "(0, 0) \<in> set squareOffsets"
proof -
  have z: "(0::int) \<in> {-10..10}" by simp
  have "(0::int, 0::int) \<in> (\<Union>dy\<in>{-10..10}. (\<lambda>dx. (dy, dx)) ` {-10..10})"
    using z by blast
  then show ?thesis
    unfolding squareOffsets_def by (simp del: upto_rec_numeral)
qed

lemma weight_fold_pos:
  fixes ps :: "(int \<times> int \<times> real) list"
  assumes "0 < a" and "\<forall>e \<in> set ps. 0 \<le> snd (snd e)"
  shows "0 < foldl (\<lambda>a (nx, ny, br). fl (a + br)) a ps"
  using assms
proof (induction ps arbitrary: a)
  case Nil
  then show ?case by simp
next
  case (Cons p ps)
  obtain nx ny br where p: "p = (nx, ny, br)" by (cases p) auto
  from Cons.prems have "0 < a + br" by (simp add: p)
  then have "0 < fl (a + br)" by (rule fl_pos)
  with Cons.prems show ?case by (simp add: p Cons.IH)
qed

lemma weight_fold_pos_member:
  fixes ps :: "(int \<times> int \<times> real) list"
  assumes "0 \<le> a" and "\<forall>e \<in> set ps. 0 \<le> snd (snd e)"
    and "u \<in> set ps" and "0 < snd (snd u)"
  shows "0 < foldl (\<lambda>a (nx, ny, br). fl (a + br)) a ps"
  using assms
proof (induction ps arbitrary: a)
  case Nil
  then show ?case by simp
next
  case (Cons p ps)
  obtain nx ny br where p: "p = (nx, ny, br)" by (cases p) auto
  from Cons.prems have br: "0 \<le> br" by (simp add: p)
  show ?case
  proof (cases "u = p")
    case True
    with Cons.prems have "0 < a + br" by (simp add: p)
    then have "0 < fl (a + br)" by (rule fl_pos)
    with Cons.prems show ?thesis by (simp add: p weight_fold_pos)
  next
    case False
    from Cons.prems br have "0 \<le> fl (a + br)" by (intro fl_nonneg) simp
    moreover from False Cons.prems have "u \<in> set ps" by simp
    ultimately show ?thesis using Cons.prems by (simp add: p Cons.IH)
  qed
qed

lemma saturated_weight_pos:
  assumes "c \<in> set (scanCandidates img s)" and "saturatedNeighbours img s c \<noteq> []"
  shows "0 < foldl (\<lambda>a (nx, ny, br). fl (a + br)) 0 (saturatedNeighbours img s c)"
proof -
  have nonneg: "\<forall>e \<in> set (saturatedNeighbours img s c). 0 \<le> snd (snd e)"
    using saturatedNeighbours_weight by blast
  have "\<exists>u \<in> set (saturatedNeighbours img s c). 0 < snd (snd u)"
  proof (cases "0 \<le> saturationThreshold s")
    case True
    from assms(2) obtain e where m: "e \<in> set (saturatedNeighbours img s c)"
      by (cases "saturatedNeighbours img s c") auto
    then have "0 < snd (snd e)" using saturatedNeighbours_weight [OF m] True by simp
    with m show ?thesis by blast
  next
    case False
    from assms(1) obtain x y where xy: "x < width img" "y < height img"
      and sp: "scanPixel img s x y = Some c"
      using scanCandidates_origin by blast
    from scanPixel_brightness [OF sp] obtain br where c: "cand_x c = x" "cand_y c = y"
      and br: "brightnessAt img (int x) (int y) = Some br" "0 < br"
      by blast
    have "saturatedAt img s c (0, 0) = [(int x, int y, br)]"
      using xy c br False by (simp add: saturatedAt_def)
    then have "(int x, int y, br) \<in> set (saturatedNeighbours img s c)"
      using zero_offset_in_square by (force simp: saturatedNeighbours_def)
    with br(2) show ?thesis by force
  qed
  then obtain u where "u \<in> set (saturatedNeighbours img s c)" "0 < snd (snd u)" by blast
  with nonneg show ?thesis by (intro weight_fold_pos_member [where u = u]) simp_all
qed

lemma refinedPosition_centroid:
  assumes "c \<in> set (scanCandidates img s)"
  shows "refinedPosition img s c =
           (if saturatedNeighbours img s c = [] then (real (cand_x c), real (cand_y c))
            else floatCentroid (saturatedNeighbours img s c))"
proof (cases "saturatedNeighbours img s c = []")
  case True
  then show ?thesis
    by (simp add: refinedPosition_def refineSums_saturatedNeighbours)
next
  case False
  with saturated_weight_pos [OF assms] show ?thesis
    by (simp add: refinedPosition_def refineSums_saturatedNeighbours floatCentroid_def Let_def)
qed

lemma scanPixel_flatRed:
  "x < 8 \<Longrightarrow> scanPixel flatRed DEFAULT_SETTINGS x 0 =
     Some \<lparr>cand_x = x, cand_y = 0, cand_r = 252, cand_g = 226, cand_b = 238, score = 280\<rparr>"
proof -
  assume "x < 8"
  then consider "x = 0" | "x = 1" | "x = 2" | "x = 3" | "x = 4" | "x = 5" | "x = 6" | "x = 7"
    by linarith
  then have "rgbAt flatRed (x * 4) = Some (252, 226, 238)"
    by cases (simp_all add: rgbAt_def flatRed_def)
  then show ?thesis
    by (simp add: scanPixel_def flatRed_def fl_values default_thresholds default_checks)
qed

lemma scan_flatRed:
  "scanCandidates flatRed DEFAULT_SETTINGS =
     [\<lparr>cand_x = 0, cand_y = 0, cand_r = 252, cand_g = 226, cand_b = 238, score = 280\<rparr>,
      \<lparr>cand_x = 2, cand_y = 0, cand_r = 252, cand_g = 226, cand_b = 238, score = 280\<rparr>,
      \<lparr>cand_x = 4, cand_y = 0, cand_r = 252, cand_g = 226, cand_b = 238, score = 280\<rparr>,
      \<lparr>cand_x = 6, cand_y = 0, cand_r = 252, cand_g = 226, cand_b = 238, score = 280\<rparr>]"
proof -
  have "width flatRed = 8" "height flatRed = Suc 0" by (simp_all add: flatRed_def)
  then show ?thesis
    by (simp add: scanCandidates_def stride2_small List.map_filter_def scanPixel_flatRed)
qed

lemma sort_flatRed:
  "sortCandidates (scanCandidates flatRed DEFAULT_SETTINGS) =
     [\<lparr>cand_x = 0, cand_y = 0, cand_r = 252, cand_g = 226, cand_b = 238, score = 280\<rparr>,
      \<lparr>cand_x = 2, cand_y = 0, cand_r = 252, cand_g = 226, cand_b = 238, score = 280\<rparr>,
      \<lparr>cand_x = 4, cand_y = 0, cand_r = 252, cand_g = 226, cand_b = 238, score = 280\<rparr>,
      \<lparr>cand_x = 6, cand_y = 0, cand_r = 252, cand_g = 226, cand_b = 238, score = 280\<rparr>]"
  by (simp add: sortCandidates_def scan_flatRed)

lemma bloom_flatRed:
  "bloomCounts flatRed DEFAULT_SETTINGS
     \<lparr>cand_x = 0, cand_y = 0, cand_r = 252, cand_g = 226, cand_b = 238, score = 280\<rparr> = (3, 3)"
  by (simp add: flatRed_def default_bloom bloom_defs)

lemma hasBloom_flatRed:
  "hasBloom flatRed DEFAULT_SETTINGS
     \<lparr>cand_x = 0, cand_y = 0, cand_r = 252, cand_g = 226, cand_b = 238, score = 280\<rparr>"
  by (simp add: hasBloom_def bloom_flatRed default_bloom fl_values)

lemma refine_flatRed:
  "refineSums flatRed DEFAULT_SETTINGS
     \<lparr>cand_x = 0, cand_y = 0, cand_r = 252, cand_g = 226, cand_b = 238, score = 280\<rparr> =
   (3673834852275541 / 549755813888, 0, 4198668402600619 / 2199023255552)"
  apply (simp add: flatRed_def default_thresholds refine_defs)
  apply (simp add: fl_eval)
  done

lemma refined_flatRed:
  "refinedPosition flatRed DEFAULT_SETTINGS
     \<lparr>cand_x = 0, cand_y = 0, cand_r = 252, cand_g = 226, cand_b = 238, score = 280\<rparr> = (3, 0)"
  apply (simp add: refinedPosition_def refine_flatRed fl_zero)
  apply (simp add: fl_eval round_def floor_eq_iff)
  done

lemma detect_flatRed:
  "detectLaser flatRed DEFAULT_SETTINGS =
     \<lparr>found = True, det_x = 3, det_y = 0, intensity = 70, detectedColor = Some Red\<rparr>"
  by (simp add: detectLaser_def sort_flatRed hasBloom_flatRed refined_flatRed
      default_thresholds round_quarters)

lemma squareOffsets_refineOffsets:
  "squareOffsets = concat (map (\<lambda>dy. map (\<lambda>dx. (dy, dx)) refineOffsets) refineOffsets)"
  by (simp only: squareOffsets_def refineOffsets_def)

lemmas neighbour_defs =
  saturatedNeighbours_def squareOffsets_refineOffsets refineOffsets_eq saturatedAt_def
  brightnessAt_def rgbAt_def Let_def fl_values fl_zero

lemma neighbours_flatRed:
  "saturatedNeighbours flatRed DEFAULT_SETTINGS
     \<lparr>cand_x = 0, cand_y = 0, cand_r = 252, cand_g = 226, cand_b = 238, score = 280\<rparr> =
   [(0, 0, 8397336805201237 / 35184372088832), (1, 0, 8397336805201237 / 35184372088832),
    (2, 0, 8397336805201237 / 35184372088832), (3, 0, 8397336805201237 / 35184372088832),
    (4, 0, 8397336805201237 / 35184372088832), (5, 0, 8397336805201237 / 35184372088832),
    (6, 0, 8397336805201237 / 35184372088832), (7, 0, 8397336805201237 / 35184372088832)]"
  by (simp add: neighbour_defs flatRed_def default_thresholds)

lemma neighbours_twoSpots:
  "saturatedNeighbours twoSpots DEFAULT_SETTINGS
     \<lparr>cand_x = 2, cand_y = 0, cand_r = 200, cand_g = 255, cand_b = 200, score = 365\<rparr> =
   [(0, 0, 8385608681171627 / 35184372088832)]"
  by (simp add: neighbour_defs twoSpots_def default_thresholds)

text \<open>
  Claim C5 says that the position reported is the brightness-weighted centroid of the
  saturated pixels of the neighbourhood, rounded to the nearest integer. On the 8 x 1
  frame of the colour (252, 226, 238) the top candidate is the pixel at 0, all eight
  pixels are saturated with the same brightness, and their centroid is 3.5, which
  rounds to 4. The running sums of the code are doubles: their quotient is
  3.4999999999999996 and the position reported is 3.
\<close>

theorem centroid_counterexample:
  "sortCandidates (scanCandidates flatRed DEFAULT_SETTINGS) =
     [\<lparr>cand_x = 0, cand_y = 0, cand_r = 252, cand_g = 226, cand_b = 238, score = 280\<rparr>,
      \<lparr>cand_x = 2, cand_y = 0, cand_r = 252, cand_g = 226, cand_b = 238, score = 280\<rparr>,
      \<lparr>cand_x = 4, cand_y = 0, cand_r = 252, cand_g = 226, cand_b = 238, score = 280\<rparr>,
      \<lparr>cand_x = 6, cand_y = 0, cand_r = 252, cand_g = 226, cand_b = 238, score = 280\<rparr>] \<and>
   score \<lparr>cand_x = 0, cand_y = 0, cand_r = 252, cand_g = 226, cand_b = 238, score = 280\<rparr>
     > minScore DEFAULT_SETTINGS \<and>
   hasBloom flatRed DEFAULT_SETTINGS
     \<lparr>cand_x = 0, cand_y = 0, cand_r = 252, cand_g = 226, cand_b = 238, score = 280\<rparr> \<and>
   length (saturatedNeighbours flatRed DEFAULT_SETTINGS
     \<lparr>cand_x = 0, cand_y = 0, cand_r = 252, cand_g = 226, cand_b = 238, score = 280\<rparr>) = 8 \<and>
   weightedCentroid (saturatedNeighbours flatRed DEFAULT_SETTINGS
     \<lparr>cand_x = 0, cand_y = 0, cand_r = 252, cand_g = 226, cand_b = 238, score = 280\<rparr>) = (4, 0) \<and>
   detectLaser flatRed DEFAULT_SETTINGS =
     \<lparr>found = True, det_x = 3, det_y = 0, intensity = 70, detectedColor = Some Red\<rparr>"
proof -
  have "round (7 / 2 :: real) = 4"
    by (simp add: round_def floor_eq_iff)
  then show ?thesis
    by (simp add: sort_flatRed default_thresholds hasBloom_flatRed neighbours_flatRed
        weightedCentroid_def detect_flatRed)
qed

text \<open>
  Claim C5 as amended. When the top candidate, the candidate of highest score that
  comes first in scan order, passes the score check and the bloom check, the position
  reported is the brightness-weighted centroid of the in-bounds pixels of the radius-10
  square neighbourhood whose brightness exceeds the saturation threshold, evaluated in
  double arithmetic in scan order of the neighbourhood, every product, running sum
  and quotient rounded to a double, and then rounded to the nearest integer; when no
  pixel of the neighbourhood exceeds the threshold, it is the position of the top
  candidate.
\<close>

theorem centroid_refinement:
  assumes "sortCandidates (scanCandidates img s) = topC # rest"
    and "score topC > minScore s" and "hasBloom img s topC"
  shows "isTopCandidate (scanCandidates img s) topC \<and>
         found (detectLaser img s) \<and>
         (det_x (detectLaser img s), det_y (detectLaser img s)) =
           (if saturatedNeighbours img s topC = []
            then (real (cand_x topC), real (cand_y topC))
            else floatCentroid (saturatedNeighbours img s topC))"
proof -
  have "topC \<in> set (scanCandidates img s)" using assms(1) by (rule top_in_scan)
  then have "refinedPosition img s topC =
      (if saturatedNeighbours img s topC = [] then (real (cand_x topC), real (cand_y topC))
       else floatCentroid (saturatedNeighbours img s topC))"
    by (rule refinedPosition_centroid)
  moreover have "found (detectLaser img s)"
    and "det_x (detectLaser img s) = fst (refinedPosition img s topC)"
    and "det_y (detectLaser img s) = snd (refinedPosition img s topC)"
    using assms by (simp_all add: detectLaser_def)
  moreover have "isTopCandidate (scanCandidates img s) topC"
    using assms(1) by (rule sorted_top)
  ultimately show ?thesis by simp
qed

lemma scan_sideSpot:
  "scanCandidates sideSpot DEFAULT_SETTINGS =
     [\<lparr>cand_x = 2, cand_y = 0, cand_r = 200, cand_g = 255, cand_b = 200, score = 365\<rparr>]"
proof -
  have "scanPixel sideSpot DEFAULT_SETTINGS 0 0 = None"
    "scanPixel sideSpot DEFAULT_SETTINGS 2 0 =
       Some \<lparr>cand_x = 2, cand_y = 0, cand_r = 200, cand_g = 255, cand_b = 200, score = 365\<rparr>"
    by (simp_all add: pixel_defs sideSpot_def default_thresholds default_checks)
  moreover have "width sideSpot = 3" "height sideSpot = Suc 0" by (simp_all add: sideSpot_def)
  ultimately show ?thesis
    by (simp add: scanCandidates_def stride2_small List.map_filter_def)
qed

lemma hasBloom_sideSpot:
  "hasBloom sideSpot DEFAULT_SETTINGS
     \<lparr>cand_x = 2, cand_y = 0, cand_r = 200, cand_g = 255, cand_b = 200, score = 365\<rparr>"
proof -
  have "bloomCounts sideSpot DEFAULT_SETTINGS
     \<lparr>cand_x = 2, cand_y = 0, cand_r = 200, cand_g = 255, cand_b = 200, score = 365\<rparr> = (1, 1)"
    by (simp add: sideSpot_def default_bloom bloom_defs)
  then show ?thesis by (simp add: hasBloom_def default_bloom fl_values)
qed

lemma neighbours_sideSpot:
  "saturatedNeighbours sideSpot DEFAULT_SETTINGS
     \<lparr>cand_x = 2, cand_y = 0, cand_r = 200, cand_g = 255, cand_b = 200, score = 365\<rparr> = []"
  by (simp add: neighbour_defs sideSpot_def default_thresholds)

theorem centroid_refinement_witness:
  "sortCandidates (scanCandidates twoSpots DEFAULT_SETTINGS) =
     [\<lparr>cand_x = 2, cand_y = 0, cand_r = 200, cand_g = 255, cand_b = 200, score = 365\<rparr>,
      \<lparr>cand_x = 0, cand_y = 0, cand_r = 230, cand_g = 255, cand_b = 230, score = 305\<rparr>] \<and>
   score \<lparr>cand_x = 2, cand_y = 0, cand_r = 200, cand_g = 255, cand_b = 200, score = 365\<rparr>
     > minScore DEFAULT_SETTINGS \<and>
   hasBloom twoSpots DEFAULT_SETTINGS
     \<lparr>cand_x = 2, cand_y = 0, cand_r = 200, cand_g = 255, cand_b = 200, score = 365\<rparr> \<and>
   isTopCandidate (scanCandidates twoSpots DEFAULT_SETTINGS)
     \<lparr>cand_x = 2, cand_y = 0, cand_r = 200, cand_g = 255, cand_b = 200, score = 365\<rparr> \<and>
   found (detectLaser twoSpots DEFAULT_SETTINGS) \<and>
   saturatedNeighbours twoSpots DEFAULT_SETTINGS
     \<lparr>cand_x = 2, cand_y = 0, cand_r = 200, cand_g = 255, cand_b = 200, score = 365\<rparr> =
     [(0, 0, 8385608681171627 / 35184372088832)] \<and>
   floatCentroid [(0, 0, 8385608681171627 / 35184372088832)] = (0, 0) \<and>
   (det_x (detectLaser twoSpots DEFAULT_SETTINGS), det_y (detectLaser twoSpots DEFAULT_SETTINGS)) =
     (0, 0) \<and>
   sortCandidates (scanCandidates sideSpot DEFAULT_SETTINGS) =
     [\<lparr>cand_x = 2, cand_y = 0, cand_r = 200, cand_g = 255, cand_b = 200, score = 365\<rparr>] \<and>
   hasBloom sideSpot DEFAULT_SETTINGS
     \<lparr>cand_x = 2, cand_y = 0, cand_r = 200, cand_g = 255, cand_b = 200, score = 365\<rparr> \<and>
   saturatedNeighbours sideSpot DEFAULT_SETTINGS
     \<lparr>cand_x = 2, cand_y = 0, cand_r = 200, cand_g = 255, cand_b = 200, score = 365\<rparr> = [] \<and>
   found (detectLaser sideSpot DEFAULT_SETTINGS) \<and>
   (det_x (detectLaser sideSpot DEFAULT_SETTINGS), det_y (detectLaser sideSpot DEFAULT_SETTINGS)) =
     (2, 0)"
proof -
  let ?c = "\<lparr>cand_x = 2, cand_y = 0, cand_r = 200, cand_g = 255, cand_b = 200, score = 365\<rparr>"
  let ?d = "\<lparr>cand_x = 0, cand_y = 0, cand_r = 230, cand_g = 255, cand_b = 230, score = 305\<rparr>"
  have top: "sortCandidates (scanCandidates twoSpots DEFAULT_SETTINGS) = ?c # [?d]"
    by (rule sort_twoSpots)
  have top': "sortCandidates (scanCandidates sideSpot DEFAULT_SETTINGS) = ?c # []"
    by (simp add: scan_sideSpot sortCandidates_def)
  have sc: "score ?c > minScore DEFAULT_SETTINGS"
    by (simp add: default_thresholds)
  have f: "floatCentroid [(0, 0, 8385608681171627 / 35184372088832)] = (0, 0)"
    by (simp add: floatCentroid_def fl_zero)
  show ?thesis
    using centroid_refinement [OF top sc hasBloom_twoSpots]
      centroid_refinement [OF top' sc hasBloom_sideSpot]
      top top' sc hasBloom_twoSpots hasBloom_sideSpot f
    by (simp add: neighbours_twoSpots neighbours_sideSpot)
qed

end
